theory Spec2Isabelle
  imports Complex_Main "HOL-Library.Log_Nat"
begin

section \<open>Python values, exceptions and outcomes\<close>

text \<open>
  The calculator (\<^verbatim>\<open>calc.py\<close>, \<^verbatim>\<open>calc_gui.py\<close>) evaluates Python expression trees
  with Python's own arithmetic. A Python \<^verbatim>\<open>float\<close> is an IEEE 754 binary64 number: it is
  modelled by its exact rational value, or one of the two infinities, or NaN. The sign of a
  zero is not kept: no operation the calculator reaches tells \<^verbatim>\<open>-0.0\<close> from \<^verbatim>\<open>0.0\<close>
  (division, floor division, modulo and negative powers raise on both, and both are
  displayed as \<^verbatim>\<open>0\<close>).
\<close>

datatype pyfloat = Finite rat | PInf | NInf | NaN

text \<open>
  The values an evaluation can produce: \<^verbatim>\<open>int\<close>, \<^verbatim>\<open>bool\<close> (a subclass of
  \<^verbatim>\<open>int\<close>), \<^verbatim>\<open>float\<close>, \<^verbatim>\<open>complex\<close> (only as the result of a power; its
  components are not tracked) and \<^verbatim>\<open>None\<close>.
\<close>

datatype pyval = VInt int | VBool bool | VFloat pyfloat | VComplex | VNone

text \<open>
  Exceptions by class. A \<^verbatim>\<open>ValueError\<close> carries its message, since the calculator
  tells its own failures apart by message only.
\<close>

datatype exn = ValueError string | TypeError | ZeroDivisionError | OverflowError | SyntaxError

text \<open>
  A computation returns a value, raises, or leaves the modelled fragment of Python
  (\<open>Unmodelled\<close>: the model makes no statement about what Python does there).
\<close>

datatype 'a outcome = Rtn 'a | Raise exn | Unmodelled

definition and_then :: "'a outcome \<Rightarrow> ('a \<Rightarrow> 'b outcome) \<Rightarrow> 'b outcome" where
  "and_then m f = (case m of Rtn v \<Rightarrow> f v | Raise e \<Rightarrow> Raise e | Unmodelled \<Rightarrow> Unmodelled)"

section \<open>Binary64 arithmetic\<close>

text \<open>Round to the nearest integer, ties to even.\<close>

definition round_half_even :: "rat \<Rightarrow> int" where
  "round_half_even x =
     (let f = \<lfloor>x\<rfloor>; d = x - of_int f
      in if d < 1 / 2 then f else if 1 / 2 < d then f + 1 else if even f then f else f + 1)"

text \<open>\<open>ilog2 x\<close> is \<open>\<lfloor>log\<^sub>2 x\<rfloor>\<close> for a positive rational, from the bit lengths of its
  numerator and denominator.\<close>

definition ilog2 :: "rat \<Rightarrow> int" where
  "ilog2 x =
     (let (n, d) = quotient_of x; k = bitlen n - bitlen d
      in if (if 0 \<le> k then d * 2 ^ nat k \<le> n else d \<le> n * 2 ^ nat (- k)) then k else k - 1)"

definition pow2 :: "int \<Rightarrow> rat" where
  "pow2 k = (if 0 \<le> k then 2 ^ nat k else 1 / 2 ^ nat (- k))"

text \<open>
  \<open>round53 x\<close> is the binary64 number nearest to the rational \<open>x\<close> (ties to even): 53
  significant bits, exponents from \<open>-1022\<close> (below that the spacing stays \<open>2\<^sup>-\<^sup>1\<^sup>0\<^sup>7\<^sup>4\<close>:
  subnormal numbers) to \<open>1023\<close> (a result of magnitude \<open>2\<^sup>1\<^sup>0\<^sup>2\<^sup>4\<close> or more is an infinity).
\<close>

definition round53 :: "rat \<Rightarrow> pyfloat" where
  "round53 x =
     (if x = 0 then Finite 0
      else let e = max (ilog2 \<bar>x\<bar>) (- 1022);
               u = pow2 (e - 52);
               n = round_half_even (x / u)
           in if 1023 < e then (if 0 < x then PInf else NInf)
              else if e = 1023 \<and> \<bar>n\<bar> = 2 ^ 53 then (if 0 < x then PInf else NInf)
              else Finite (of_int n * u))"

definition fneg :: "pyfloat \<Rightarrow> pyfloat" where
  "fneg x = (case x of Finite a \<Rightarrow> Finite (- a) | PInf \<Rightarrow> NInf | NInf \<Rightarrow> PInf | NaN \<Rightarrow> NaN)"

definition fabs :: "pyfloat \<Rightarrow> pyfloat" where
  "fabs x = (case x of Finite a \<Rightarrow> Finite \<bar>a\<bar> | PInf \<Rightarrow> PInf | NInf \<Rightarrow> PInf | NaN \<Rightarrow> NaN)"

text \<open>C's comparisons \<^verbatim>\<open>x < 0\<close> and \<^verbatim>\<open>x > c\<close>: false on NaN.\<close>

definition flt0 :: "pyfloat \<Rightarrow> bool" where
  "flt0 x = (case x of Finite a \<Rightarrow> a < 0 | NInf \<Rightarrow> True | _ \<Rightarrow> False)"

definition fgt :: "pyfloat \<Rightarrow> rat \<Rightarrow> bool" where
  "fgt x c = (case x of Finite a \<Rightarrow> c < a | PInf \<Rightarrow> True | _ \<Rightarrow> False)"

fun fadd :: "pyfloat \<Rightarrow> pyfloat \<Rightarrow> pyfloat" where
  "fadd NaN _ = NaN"
| "fadd _ NaN = NaN"
| "fadd (Finite a) (Finite b) = round53 (a + b)"
| "fadd PInf NInf = NaN"
| "fadd NInf PInf = NaN"
| "fadd (Finite a) y = y"
| "fadd x _ = x"

definition fsub :: "pyfloat \<Rightarrow> pyfloat \<Rightarrow> pyfloat" where
  "fsub x y = fadd x (fneg y)"

fun fmul :: "pyfloat \<Rightarrow> pyfloat \<Rightarrow> pyfloat" where
  "fmul NaN _ = NaN"
| "fmul _ NaN = NaN"
| "fmul (Finite a) (Finite b) = round53 (a * b)"
| "fmul (Finite a) y = (if a = 0 then NaN else if 0 < a then y else fneg y)"
| "fmul x (Finite b) = (if b = 0 then NaN else if 0 < b then x else fneg x)"
| "fmul x y = (if x = y then PInf else NInf)"

text \<open>Division is only ever reached with a divisor that is not zero: every caller tests
  the divisor first and raises \<^verbatim>\<open>ZeroDivisionError\<close>.\<close>

fun fdiv :: "pyfloat \<Rightarrow> pyfloat \<Rightarrow> pyfloat" where
  "fdiv NaN _ = NaN"
| "fdiv _ NaN = NaN"
| "fdiv (Finite a) (Finite b) = (if b = 0 then NaN else round53 (a / b))"
| "fdiv (Finite a) y = Finite 0"
| "fdiv x (Finite b) = (if 0 \<le> b then x else fneg x)"
| "fdiv x y = NaN"

text \<open>C's \<^verbatim>\<open>fmod\<close> (exact: the result has the sign of \<open>x\<close>) and \<^verbatim>\<open>floor\<close>.\<close>

definition rtrunc :: "rat \<Rightarrow> int" where
  "rtrunc q = (if 0 \<le> q then \<lfloor>q\<rfloor> else \<lceil>q\<rceil>)"

fun fmod_c :: "pyfloat \<Rightarrow> pyfloat \<Rightarrow> pyfloat" where
  "fmod_c NaN _ = NaN"
| "fmod_c _ NaN = NaN"
| "fmod_c (Finite a) (Finite b) = (if b = 0 then NaN else Finite (a - of_int (rtrunc (a / b)) * b))"
| "fmod_c (Finite a) y = Finite a"
| "fmod_c x y = NaN"

definition ffloor :: "pyfloat \<Rightarrow> pyfloat" where
  "ffloor x = (case x of Finite a \<Rightarrow> Finite (of_int \<lfloor>a\<rfloor>) | _ \<Rightarrow> x)"

section \<open>Python's numeric operators\<close>

text \<open>
  The C library's \<^verbatim>\<open>pow\<close>, \<^verbatim>\<open>sqrt\<close>, \<^verbatim>\<open>sin\<close>, \<^verbatim>\<open>cos\<close>, \<^verbatim>\<open>tan\<close>,
  \<^verbatim>\<open>log\<close> and \<^verbatim>\<open>log10\<close> are parameters of the model: \<open>c_pow\<close> is asked for a
  positive finite base other than 1 and a finite exponent other than 0, the others for a
  finite argument of their domain.
\<close>

record libm =
  c_pow :: "rat \<Rightarrow> rat \<Rightarrow> pyfloat"
  c_sqrt :: "rat \<Rightarrow> rat"
  c_sin :: "rat \<Rightarrow> rat"
  c_cos :: "rat \<Rightarrow> rat"
  c_tan :: "rat \<Rightarrow> rat"
  c_log :: "rat \<Rightarrow> rat"
  c_log10 :: "rat \<Rightarrow> rat"

definition as_int :: "pyval \<Rightarrow> int option" where
  "as_int v = (case v of VInt i \<Rightarrow> Some i | VBool b \<Rightarrow> Some (if b then 1 else 0) | _ \<Rightarrow> None)"

text \<open>\<^verbatim>\<open>int\<close> to \<^verbatim>\<open>float\<close>: correctly rounded, \<^verbatim>\<open>OverflowError\<close> beyond the range.\<close>

definition float_of_int :: "int \<Rightarrow> pyfloat outcome" where
  "float_of_int i = (case round53 (of_int i) of Finite q \<Rightarrow> Rtn (Finite q) | _ \<Rightarrow> Raise OverflowError)"

definition as_float :: "pyval \<Rightarrow> pyfloat outcome" where
  "as_float v =
     (case v of VFloat x \<Rightarrow> Rtn x
      | VInt i \<Rightarrow> float_of_int i
      | VBool b \<Rightarrow> float_of_int (if b then 1 else 0)
      | _ \<Rightarrow> Raise TypeError)"

text \<open>\<^verbatim>\<open>int / int\<close>: the correctly rounded quotient.\<close>

definition int_true_div :: "int \<Rightarrow> int \<Rightarrow> pyval outcome" where
  "int_true_div i j =
     (if j = 0 then Raise ZeroDivisionError
      else case round53 (of_int i / of_int j) of
             Finite q \<Rightarrow> Rtn (VFloat (Finite q))
           | _ \<Rightarrow> Raise OverflowError)"

definition float_div :: "pyfloat \<Rightarrow> pyfloat \<Rightarrow> pyval outcome" where
  "float_div x y = (if y = Finite 0 then Raise ZeroDivisionError else Rtn (VFloat (fdiv x y)))"

text \<open>
  \<^verbatim>\<open>float % float\<close> and \<^verbatim>\<open>float // float\<close>, as CPython computes them from
  \<^verbatim>\<open>fmod\<close>: the remainder takes the sign of the divisor, the quotient is floored.
\<close>

definition float_rem :: "pyfloat \<Rightarrow> pyfloat \<Rightarrow> pyval outcome" where
  "float_rem vx wx =
     (if wx = Finite 0 then Raise ZeroDivisionError
      else let m = fmod_c vx wx
           in Rtn (VFloat (if m \<noteq> Finite 0
                           then (if flt0 wx \<noteq> flt0 m then fadd m wx else m)
                           else Finite 0)))"

definition float_floor_div :: "pyfloat \<Rightarrow> pyfloat \<Rightarrow> pyval outcome" where
  "float_floor_div vx wx =
     (if wx = Finite 0 then Raise ZeroDivisionError
      else let m = fmod_c vx wx;
               d0 = fdiv (fsub vx m) wx;
               d = (if m \<noteq> Finite 0 \<and> flt0 wx \<noteq> flt0 m then fsub d0 (Finite 1) else d0)
           in Rtn (VFloat (if d \<noteq> Finite 0
                           then (let fl = ffloor d
                                 in if fgt (fsub d fl) (1 / 2) then fadd fl (Finite 1) else fl)
                           else Finite 0)))"

definition rpow :: "rat \<Rightarrow> int \<Rightarrow> rat" where
  "rpow a k = (if 0 \<le> k then a ^ nat k else 1 / a ^ nat (- k))"

text \<open>
  C's \<^verbatim>\<open>pow\<close> on a positive finite base and a finite exponent: 1 for the base 1, exact
  where the exponent is an integer and the exact power is a binary64 number, the library's
  rounding (the parameter) otherwise.
\<close>

definition pow_c :: "libm \<Rightarrow> rat \<Rightarrow> rat \<Rightarrow> pyfloat" where
  "pow_c L a w =
     (if a = 1 then Finite 1
      else if of_int \<lfloor>w\<rfloor> = w
      then (let r = rpow a \<lfloor>w\<rfloor> in if round53 r = Finite r then Finite r else c_pow L a w)
      else c_pow L a w)"

definition odd_integer :: "rat \<Rightarrow> bool" where
  "odd_integer w = (of_int \<lfloor>w\<rfloor> = w \<and> odd \<lfloor>w\<rfloor>)"

text \<open>
  \<^verbatim>\<open>float ** float\<close> (CPython's \<^verbatim>\<open>float_pow\<close>, in its order): the special values
  first; a zero base with a negative exponent raises; a negative base with an exponent that
  is not an integer is handed to the \<^verbatim>\<open>complex\<close> power, whose result is a
  \<^verbatim>\<open>complex\<close> number unless the modulus \<^verbatim>\<open>pow(|v|, w)\<close> overflows; an overflow of
  \<^verbatim>\<open>pow\<close> raises.
\<close>

definition float_pow :: "libm \<Rightarrow> pyfloat \<Rightarrow> pyfloat \<Rightarrow> pyval outcome" where
  "float_pow L iv iw =
     (if iw = Finite 0 then Rtn (VFloat (Finite 1))
      else if iv = NaN then Rtn (VFloat NaN)
      else case iw of
        NaN \<Rightarrow> Rtn (VFloat (if iv = Finite 1 then Finite 1 else NaN))
      | PInf \<Rightarrow> Rtn (VFloat (if fabs iv = Finite 1 then Finite 1
                               else if fgt (fabs iv) 1 then PInf else Finite 0))
      | NInf \<Rightarrow> Rtn (VFloat (if fabs iv = Finite 1 then Finite 1
                               else if fgt (fabs iv) 1 then Finite 0 else PInf))
      | Finite w \<Rightarrow>
          (case iv of
             PInf \<Rightarrow> Rtn (VFloat (if 0 < w then PInf else Finite 0))
           | NInf \<Rightarrow> Rtn (VFloat (if 0 < w then (if odd_integer w then NInf else PInf)
                                    else Finite 0))
           | NaN \<Rightarrow> Rtn (VFloat NaN)
           | Finite v \<Rightarrow>
               if v = 0 then (if w < 0 then Raise ZeroDivisionError else Rtn (VFloat (Finite 0)))
               else if v < 0 \<and> of_int \<lfloor>w\<rfloor> \<noteq> w
                 then (case pow_c L \<bar>v\<bar> w of
                         PInf \<Rightarrow> Raise OverflowError
                       | NInf \<Rightarrow> Raise OverflowError
                       | _ \<Rightarrow> Rtn VComplex)
               else if \<bar>v\<bar> = 1
                 then Rtn (VFloat (Finite (if v < 0 \<and> odd_integer w then - 1 else 1)))
               else (case pow_c L \<bar>v\<bar> w of
                       Finite r \<Rightarrow>
                         Rtn (VFloat (Finite (if v < 0 \<and> odd_integer w then - r else r)))
                     | NaN \<Rightarrow> Rtn (VFloat NaN)
                     | _ \<Rightarrow> Raise OverflowError)))"

text \<open>
  A binary operator on two values: \<^verbatim>\<open>None\<close> supports none; a \<^verbatim>\<open>complex\<close> operand
  is a \<^verbatim>\<open>TypeError\<close> for \<^verbatim>\<open>//\<close> and \<^verbatim>\<open>%\<close> and is not modelled for the others;
  two integers (booleans count as 0 and 1) stay in integer arithmetic; otherwise both
  operands are converted to \<^verbatim>\<open>float\<close>.
\<close>

definition py_binary ::
  "(int \<Rightarrow> int \<Rightarrow> pyval outcome) \<Rightarrow> (pyfloat \<Rightarrow> pyfloat \<Rightarrow> pyval outcome) \<Rightarrow> bool
     \<Rightarrow> pyval \<Rightarrow> pyval \<Rightarrow> pyval outcome" where
  "py_binary on_int on_float complex_ok a b =
     (if a = VNone \<or> b = VNone then Raise TypeError
      else if a = VComplex \<or> b = VComplex
        then (if complex_ok then Unmodelled else Raise TypeError)
      else case (as_int a, as_int b) of
             (Some i, Some j) \<Rightarrow> on_int i j
           | _ \<Rightarrow> and_then (as_float a) (\<lambda>x. and_then (as_float b) (\<lambda>y. on_float x y)))"

definition py_add :: "pyval \<Rightarrow> pyval \<Rightarrow> pyval outcome" where
  "py_add = py_binary (\<lambda>i j. Rtn (VInt (i + j))) (\<lambda>x y. Rtn (VFloat (fadd x y))) True"

definition py_sub :: "pyval \<Rightarrow> pyval \<Rightarrow> pyval outcome" where
  "py_sub = py_binary (\<lambda>i j. Rtn (VInt (i - j))) (\<lambda>x y. Rtn (VFloat (fsub x y))) True"

definition py_mul :: "pyval \<Rightarrow> pyval \<Rightarrow> pyval outcome" where
  "py_mul = py_binary (\<lambda>i j. Rtn (VInt (i * j))) (\<lambda>x y. Rtn (VFloat (fmul x y))) True"

definition py_truediv :: "pyval \<Rightarrow> pyval \<Rightarrow> pyval outcome" where
  "py_truediv = py_binary int_true_div float_div True"

text \<open>On integers HOL's \<open>div\<close> and \<open>mod\<close> are Python's: floored, the remainder with the
  sign of the divisor.\<close>

definition py_floordiv :: "pyval \<Rightarrow> pyval \<Rightarrow> pyval outcome" where
  "py_floordiv =
     py_binary (\<lambda>i j. if j = 0 then Raise ZeroDivisionError else Rtn (VInt (i div j)))
       float_floor_div False"

definition py_mod :: "pyval \<Rightarrow> pyval \<Rightarrow> pyval outcome" where
  "py_mod =
     py_binary (\<lambda>i j. if j = 0 then Raise ZeroDivisionError else Rtn (VInt (i mod j)))
       float_rem False"

text \<open>\<^verbatim>\<open>int ** int\<close> is exact for an exponent that is not negative, and the
  \<^verbatim>\<open>float\<close> power of the converted operands otherwise.\<close>

definition py_pow :: "libm \<Rightarrow> pyval \<Rightarrow> pyval \<Rightarrow> pyval outcome" where
  "py_pow L =
     py_binary
       (\<lambda>i j. if 0 \<le> j then Rtn (VInt (i ^ nat j))
              else and_then (float_of_int i) (\<lambda>x. and_then (float_of_int j) (\<lambda>y. float_pow L x y)))
       (float_pow L) True"

definition py_pos :: "pyval \<Rightarrow> pyval outcome" where
  "py_pos v =
     (case v of VInt i \<Rightarrow> Rtn (VInt i)
      | VBool b \<Rightarrow> Rtn (VInt (if b then 1 else 0))
      | VFloat x \<Rightarrow> Rtn (VFloat x)
      | VComplex \<Rightarrow> Rtn VComplex
      | VNone \<Rightarrow> Raise TypeError)"

definition py_neg :: "pyval \<Rightarrow> pyval outcome" where
  "py_neg v =
     (case v of VInt i \<Rightarrow> Rtn (VInt (- i))
      | VBool b \<Rightarrow> Rtn (VInt (if b then - 1 else 0))
      | VFloat x \<Rightarrow> Rtn (VFloat (fneg x))
      | VComplex \<Rightarrow> Rtn VComplex
      | VNone \<Rightarrow> Raise TypeError)"

text \<open>Python's \<^verbatim>\<open>==\<close> on the values above (numbers compare by value across types).\<close>

definition py_eq :: "pyval \<Rightarrow> pyval \<Rightarrow> bool" where
  "py_eq a b =
     (case (as_int a, as_int b) of
        (Some i, Some j) \<Rightarrow> i = j
      | (Some i, None) \<Rightarrow> b = VFloat (Finite (of_int i))
      | (None, Some j) \<Rightarrow> a = VFloat (Finite (of_int j))
      | (None, None) \<Rightarrow> a = b \<and> a \<noteq> VFloat NaN \<and> a \<noteq> VComplex)"

section \<open>The \<^verbatim>\<open>math\<close> functions of the registry\<close>

datatype mathfn = M_sqrt | M_sin | M_cos | M_tan | M_log10 | M_log

text \<open>\<^verbatim>\<open>ALLOWED_FUNCS\<close>: \<^verbatim>\<open>log\<close> is \<^verbatim>\<open>math.log10\<close> and \<^verbatim>\<open>ln\<close> is \<^verbatim>\<open>math.log\<close>.\<close>

definition ALLOWED_FUNCS :: "string \<rightharpoonup> mathfn" where
  "ALLOWED_FUNCS =
     map_of [(''sqrt'', M_sqrt), (''sin'', M_sin), (''cos'', M_cos), (''tan'', M_tan),
             (''log'', M_log10), (''ln'', M_log)]"

text \<open>\<^verbatim>\<open>ALLOWED_NAMES\<close>: \<^verbatim>\<open>math.pi\<close> and \<^verbatim>\<open>math.e\<close>, as the binary64 numbers they are.\<close>

definition ALLOWED_NAMES :: "string \<rightharpoonup> pyval" where
  "ALLOWED_NAMES =
     map_of [(''pi'', VFloat (Finite (884279719003555 / 2 ^ 48))),
             (''e'', VFloat (Finite (6121026514868073 / 2 ^ 51)))]"

definition domain_error :: exn where
  "domain_error = ValueError ''math domain error''"

text \<open>
  A \<^verbatim>\<open>math\<close> function of one argument converts it to \<^verbatim>\<open>float\<close> and raises
  \<^verbatim>\<open>ValueError\<close> outside its domain. \<open>inf_ok\<close>: whether \<open>+\<infinity>\<close> is in the domain
  (\<^verbatim>\<open>sqrt\<close>) or not (\<^verbatim>\<open>sin\<close>, \<^verbatim>\<open>cos\<close>, \<^verbatim>\<open>tan\<close>).
\<close>

definition math_1 :: "(rat \<Rightarrow> rat) \<Rightarrow> bool \<Rightarrow> bool \<Rightarrow> pyval \<Rightarrow> pyval outcome" where
  "math_1 f neg_ok inf_ok v =
     and_then (as_float v) (\<lambda>x.
       case x of
         Finite a \<Rightarrow> if a < 0 \<and> \<not> neg_ok then Raise domain_error else Rtn (VFloat (Finite (f a)))
       | PInf \<Rightarrow> if inf_ok then Rtn (VFloat PInf) else Raise domain_error
       | NInf \<Rightarrow> Raise domain_error
       | NaN \<Rightarrow> Rtn (VFloat NaN))"

text \<open>
  The logarithms take an \<^verbatim>\<open>int\<close> of any size (no conversion to \<^verbatim>\<open>float\<close>) and
  raise \<^verbatim>\<open>ValueError\<close> on an argument that is not positive.
\<close>

definition loghelper :: "(rat \<Rightarrow> rat) \<Rightarrow> pyval \<Rightarrow> pyfloat outcome" where
  "loghelper f v =
     (case as_int v of
        Some i \<Rightarrow> if i \<le> 0 then Raise domain_error else Rtn (Finite (f (of_int i)))
      | None \<Rightarrow>
          (case v of
             VFloat (Finite a) \<Rightarrow> if a \<le> 0 then Raise domain_error else Rtn (Finite (f a))
           | VFloat PInf \<Rightarrow> Rtn PInf
           | VFloat NInf \<Rightarrow> Raise domain_error
           | VFloat NaN \<Rightarrow> Rtn NaN
           | _ \<Rightarrow> Raise TypeError))"

text \<open>
  \<^verbatim>\<open>ALLOWED_FUNCS[fname](*args)\<close>: every function takes exactly one argument, except
  \<^verbatim>\<open>math.log\<close>, which takes an optional base and divides the two logarithms. Any other
  number of arguments is the library's \<^verbatim>\<open>TypeError\<close>.
\<close>

definition call_func :: "libm \<Rightarrow> mathfn \<Rightarrow> pyval list \<Rightarrow> pyval outcome" where
  "call_func L fn args =
     (case fn of
        M_sqrt \<Rightarrow> (case args of [v] \<Rightarrow> math_1 (c_sqrt L) False True v | _ \<Rightarrow> Raise TypeError)
      | M_sin \<Rightarrow> (case args of [v] \<Rightarrow> math_1 (c_sin L) True False v | _ \<Rightarrow> Raise TypeError)
      | M_cos \<Rightarrow> (case args of [v] \<Rightarrow> math_1 (c_cos L) True False v | _ \<Rightarrow> Raise TypeError)
      | M_tan \<Rightarrow> (case args of [v] \<Rightarrow> math_1 (c_tan L) True False v | _ \<Rightarrow> Raise TypeError)
      | M_log10 \<Rightarrow>
          (case args of
             [v] \<Rightarrow> and_then (loghelper (c_log10 L) v) (\<lambda>x. Rtn (VFloat x))
           | _ \<Rightarrow> Raise TypeError)
      | M_log \<Rightarrow>
          (case args of
             [v] \<Rightarrow> and_then (loghelper (c_log L) v) (\<lambda>x. Rtn (VFloat x))
           | [v, b] \<Rightarrow>
               and_then (loghelper (c_log L) v) (\<lambda>num.
               and_then (loghelper (c_log L) b) (\<lambda>den. float_div num den))
           | _ \<Rightarrow> Raise TypeError))"

section \<open>Expression trees\<close>

text \<open>
  The nodes of Python's \<^verbatim>\<open>ast\<close> module. The classes the evaluator has a
  \<^verbatim>\<open>visit_\<close> method for are constructors of their own; \<open>Other c kids\<close> is a node of any
  other class \<open>c\<close> (\<^verbatim>\<open>Set\<close>, \<^verbatim>\<open>Tuple\<close>, \<^verbatim>\<open>Compare\<close>, \<^verbatim>\<open>Starred\<close>, ...) with its
  child nodes in field order. (Since Python 3.8 a literal is a \<^verbatim>\<open>Constant\<close>; the
  \<^verbatim>\<open>visit_Num\<close> method is never called.)
\<close>

datatype operator =
  Add | Sub | Mult | MatMult | Div | Mod | Pow_op | LShift | RShift | BitOr | BitXor | BitAnd
  | FloorDiv

datatype unaryop = Invert | Not_op | UAdd | USub

datatype pyconst =
  CInt int | CBool bool | CFloat pyfloat | CComplex | CStr string | CBytes | CNone | CEllipsis

datatype node =
    Expression node
  | Constant pyconst
  | Name string
  | BinOp node operator node
  | UnaryOp unaryop node
  | Call node "node list" "string list"
  | Other string "node list"

text \<open>The third field of \<open>Call\<close> holds the names of the keyword arguments
  (\<^verbatim>\<open>node.keywords\<close>): the evaluator only tests whether there are any.\<close>

section \<open>The evaluator \<^verbatim>\<open>SafeEval\<close>\<close>

text \<open>
  Both files define the class \<^verbatim>\<open>SafeEval\<close>; they differ in \<^verbatim>\<open>visit_Call\<close> only.
  \<open>Calc\<close> is \<^verbatim>\<open>calc.py\<close> (the line interface), \<open>CalcGui\<close> is \<^verbatim>\<open>calc_gui.py\<close>.
\<close>

datatype module = Calc | CalcGui

definition quoted :: "string \<Rightarrow> string" where
  "quoted s = CHR 0x27 # s @ [CHR 0x27]"

definition visit_Constant :: "pyconst \<Rightarrow> pyval outcome" where
  "visit_Constant c =
     (case c of
        CInt i \<Rightarrow> Rtn (VInt i)
      | CBool b \<Rightarrow> Rtn (VBool b)
      | CFloat x \<Rightarrow> Rtn (VFloat x)
      | _ \<Rightarrow> Raise (ValueError ''only numbers allowed''))"

text \<open>The \<^verbatim>\<open>isinstance\<close> chain of \<^verbatim>\<open>visit_BinOp\<close>, on the operands' values.\<close>

definition binop :: "libm \<Rightarrow> operator \<Rightarrow> pyval \<Rightarrow> pyval \<Rightarrow> pyval outcome" where
  "binop L op left right =
     (case op of
        Add \<Rightarrow> py_add left right
      | Sub \<Rightarrow> py_sub left right
      | Mult \<Rightarrow> py_mul left right
      | Div \<Rightarrow> py_truediv left right
      | FloorDiv \<Rightarrow> py_floordiv left right
      | Mod \<Rightarrow> py_mod left right
      | Pow_op \<Rightarrow> py_pow L left right
      | _ \<Rightarrow> Raise (ValueError ''operator not allowed''))"

definition unop :: "unaryop \<Rightarrow> pyval \<Rightarrow> pyval outcome" where
  "unop op val =
     (case op of
        UAdd \<Rightarrow> py_pos val
      | USub \<Rightarrow> py_neg val
      | _ \<Rightarrow> Raise (ValueError ''unary operator not allowed''))"

text \<open>\<^verbatim>\<open>self.names = {**ALLOWED_NAMES, **names}\<close>: the caller's bindings override.\<close>

definition visit_Name :: "(string \<rightharpoonup> pyval) \<Rightarrow> string \<Rightarrow> pyval outcome" where
  "visit_Name names ident =
     (case (ALLOWED_NAMES ++ names) ident of
        Some v \<Rightarrow> Rtn v
      | None \<Rightarrow> Raise (ValueError (''name '' @ quoted ident @ '' not allowed'')))"

text \<open>The checks of \<^verbatim>\<open>visit_Call\<close> that follow the lookup of the function name:
  \<^verbatim>\<open>calc.py\<close> lets one or two positional arguments and no keyword pass,
  \<^verbatim>\<open>calc_gui.py\<close> only refuses keywords.\<close>

definition call_check :: "module \<Rightarrow> nat \<Rightarrow> string list \<Rightarrow> exn option" where
  "call_check md nargs keywords =
     (case md of
        Calc \<Rightarrow>
          if \<not> (0 < nargs \<and> nargs \<le> 2) \<or> keywords \<noteq> []
          then Some (ValueError ''bad function arity'') else None
      | CalcGui \<Rightarrow>
          if keywords \<noteq> [] then Some (ValueError ''no keyword args'') else None)"

text \<open>The node classes \<^verbatim>\<open>generic_visit\<close> refuses.\<close>

definition forbidden :: "string list" where
  "forbidden =
     [''Assign'', ''Attribute'', ''Subscript'', ''List'', ''Dict'', ''Tuple'',
      ''Lambda'', ''IfExp'', ''Compare'', ''BoolOp'', ''And'', ''Or'',
      ''While'', ''For'', ''If'', ''With'', ''Import'', ''ImportFrom'',
      ''FunctionDef'', ''ClassDef'', ''Module'', ''Expr'']"

text \<open>
  \<^verbatim>\<open>visit\<close> dispatches on the node's class. A class without a \<^verbatim>\<open>visit_\<close> method
  goes to \<^verbatim>\<open>generic_visit\<close>: a \<^verbatim>\<open>ValueError\<close> for a forbidden class, and otherwise the
  inherited \<^verbatim>\<open>ast.NodeVisitor.generic_visit\<close>, which visits the children, discards their
  values and returns \<^verbatim>\<open>None\<close>. \<open>visit_all\<close> visits a list of nodes in order (the
  arguments of a call, the children of a node) and stops at the first exception.
\<close>

fun visit :: "libm \<Rightarrow> module \<Rightarrow> (string \<rightharpoonup> pyval) \<Rightarrow> node \<Rightarrow> pyval outcome"
  and visit_all :: "libm \<Rightarrow> module \<Rightarrow> (string \<rightharpoonup> pyval) \<Rightarrow> node list \<Rightarrow> pyval list outcome"
where
  "visit L md names (Expression body) = visit L md names body"
| "visit L md names (Constant c) = visit_Constant c"
| "visit L md names (BinOp l op r) =
     and_then (visit L md names l) (\<lambda>left.
     and_then (visit L md names r) (\<lambda>right. binop L op left right))"
| "visit L md names (UnaryOp op operand) =
     and_then (visit L md names operand) (\<lambda>val. unop op val)"
| "visit L md names (Name ident) = visit_Name names ident"
| "visit L md names (Call func args keywords) =
     (case func of
        Name fname \<Rightarrow>
          (case ALLOWED_FUNCS fname of
             None \<Rightarrow> Raise (ValueError (''function '' @ quoted fname @ '' not allowed''))
           | Some fn \<Rightarrow>
               (case call_check md (length args) keywords of
                  Some e \<Rightarrow> Raise e
                | None \<Rightarrow> and_then (visit_all L md names args) (\<lambda>vs. call_func L fn vs)))
      | _ \<Rightarrow> Raise (ValueError ''function not allowed''))"
| "visit L md names (Other c kids) =
     (if c \<in> set forbidden then Raise (ValueError ''syntax not allowed'')
      else and_then (visit_all L md names kids) (\<lambda>_. Rtn VNone))"
| "visit_all L md names [] = Rtn []"
| "visit_all L md names (n # ns) =
     and_then (visit L md names n) (\<lambda>v.
     and_then (visit_all L md names ns) (\<lambda>vs. Rtn (v # vs)))"

section \<open>\<^verbatim>\<open>ast.parse(expr, mode="eval")\<close> on the calculator's alphabet\<close>

text \<open>
  Python's tokenizer and expression grammar, restricted to the texts made of decimal
  digits, \<^verbatim>\<open>.\<close>, ASCII letters, \<^verbatim>\<open>_\<close> and the characters \<^verbatim>\<open>+ - * / % ( ) ,\<close>.
  On any other text (white space, other operators, strings, a number followed by a letter
  as in \<^verbatim>\<open>1e5\<close> or \<^verbatim>\<open>2j\<close>, a Python keyword other than \<^verbatim>\<open>True\<close>, \<^verbatim>\<open>False\<close>,
  \<^verbatim>\<open>None\<close>, a starred element) the result is \<open>Unmodelled\<close>. The interpreter's resource
  limits (nesting depth, recursion depth, digits of an integer literal) are not modelled.
\<close>

datatype token = NUMBER pyconst | NAME string | OP string

definition is_digit :: "char \<Rightarrow> bool" where
  "is_digit c = (c \<in> set ''0123456789'')"

definition is_name_start :: "char \<Rightarrow> bool" where
  "is_name_start c = (c \<in> set ''abcdefghijklmnopqrstuvwxyzABCDEFGHIJKLMNOPQRSTUVWXYZ_'')"

definition is_name_char :: "char \<Rightarrow> bool" where
  "is_name_char c = (is_name_start c \<or> is_digit c)"

definition py_keywords :: "string list" where
  "py_keywords =
     [''and'', ''as'', ''assert'', ''async'', ''await'', ''break'', ''class'', ''continue'',
      ''def'', ''del'', ''elif'', ''else'', ''except'', ''finally'', ''for'', ''from'',
      ''global'', ''if'', ''import'', ''in'', ''is'', ''lambda'', ''nonlocal'', ''not'',
      ''or'', ''pass'', ''raise'', ''return'', ''try'', ''while'', ''with'', ''yield'']"

definition digit_val :: "char \<Rightarrow> int" where
  "digit_val c = of_char c - 48"

definition int_of_digits :: "string \<Rightarrow> int" where
  "int_of_digits ds = foldl (\<lambda>a c. 10 * a + digit_val c) 0 ds"

text \<open>
  A number literal at the head of \<open>s\<close>: digits, then optionally a point and digits. The
  result is the token and the number of characters read. An integer literal with a leading
  zero is a syntax error unless it is zero; a literal with a point is the binary64 number
  nearest to its decimal value.
\<close>

definition scan_number :: "string \<Rightarrow> token outcome \<times> nat" where
  "scan_number s =
     (let d1 = takeWhile is_digit s;
          r1 = dropWhile is_digit s;
          has_point = (r1 \<noteq> [] \<and> hd r1 = CHR ''.'');
          d2 = (if has_point then takeWhile is_digit (tl r1) else []);
          k = length d1 + (if has_point then 1 + length d2 else 0);
          next = drop k s
      in (if next \<noteq> [] \<and> is_name_start (hd next) then Unmodelled
          else if has_point then
            (if d1 = [] \<and> d2 = [] then Unmodelled
             else Rtn (NUMBER (CFloat (round53 (of_int (int_of_digits (d1 @ d2)) / 10 ^ length d2)))))
          else if 1 < length d1 \<and> hd d1 = CHR ''0'' \<and> int_of_digits d1 \<noteq> 0 then Raise SyntaxError
          else Rtn (NUMBER (CInt (int_of_digits d1))),
          k))"

definition scan_name :: "string \<Rightarrow> token outcome \<times> nat" where
  "scan_name s =
     (let name = takeWhile is_name_char s
      in (if name \<in> set py_keywords then Unmodelled else Rtn (NAME name), length name))"

definition scan_op :: "string \<Rightarrow> token outcome \<times> nat" where
  "scan_op s =
     (case s of
        c # cs \<Rightarrow>
          if (c = CHR ''*'' \<or> c = CHR ''/'') \<and> cs \<noteq> [] \<and> hd cs = c then (Rtn (OP [c, c]), 2)
          else if c \<in> set ''+-*/%(),'' then (Rtn (OP [c]), 1)
          else (Unmodelled, 1)
      | [] \<Rightarrow> (Unmodelled, 1))"

definition scan :: "string \<Rightarrow> token outcome \<times> nat" where
  "scan s =
     (if s \<noteq> [] \<and> (is_digit (hd s) \<or> hd s = CHR ''.'') then scan_number s
      else if s \<noteq> [] \<and> is_name_start (hd s) then scan_name s
      else scan_op s)"

fun lex :: "string \<Rightarrow> token list outcome" where
  "lex [] = Rtn []"
| "lex (c # cs) =
     (case scan (c # cs) of
        (t, k) \<Rightarrow> and_then t (\<lambda>tok. and_then (lex (drop (k - 1) cs)) (\<lambda>ts. Rtn (tok # ts))))"

definition tuple_node :: "node list \<Rightarrow> node" where
  "tuple_node elts = Other ''Tuple'' (elts @ [Other ''Load'' []])"

definition is_op :: "string \<Rightarrow> token list \<Rightarrow> bool" where
  "is_op s ts = (ts \<noteq> [] \<and> hd ts = OP s)"

text \<open>
  The grammar, lowest precedence first (each function returns the tree and the tokens
  left):
  \<^item> \<open>p_elems\<close>: expressions separated by commas, with an optional trailing comma (the
    first one, the others, whether a comma was seen);
  \<^item> \<open>p_sum\<close>: terms joined by \<^verbatim>\<open>+ -\<close>, to the left;
  \<^item> \<open>p_term\<close>: factors joined by \<^verbatim>\<open>* / // %\<close>, to the left;
  \<^item> \<open>p_factor\<close>: a prefix \<^verbatim>\<open>+\<close> or \<^verbatim>\<open>-\<close> applied to a factor, or a power;
  \<^item> \<open>p_power\<close>: a primary, optionally followed by \<^verbatim>\<open>**\<close> and a factor (so the
    exponent may carry a sign, and a sign before the base applies to the whole power);
  \<^item> \<open>p_trailers\<close>: the argument lists \<^verbatim>\<open>(...)\<close> after an atom, each a call;
  \<^item> \<open>p_atom\<close>: a number, a name, \<^verbatim>\<open>True\<close>, \<^verbatim>\<open>False\<close>, \<^verbatim>\<open>None\<close>, a parenthesised
    expression or a tuple.
  The first argument bounds the depth of the recursion; \<open>parse\<close> passes a bound no parse
  of the token list reaches.
\<close>

function (sequential) p_elems :: "nat \<Rightarrow> token list \<Rightarrow> (node \<times> node list \<times> bool \<times> token list) outcome"
  and p_sum :: "nat \<Rightarrow> token list \<Rightarrow> (node \<times> token list) outcome"
  and p_sum_rest :: "nat \<Rightarrow> node \<Rightarrow> token list \<Rightarrow> (node \<times> token list) outcome"
  and p_term :: "nat \<Rightarrow> token list \<Rightarrow> (node \<times> token list) outcome"
  and p_term_rest :: "nat \<Rightarrow> node \<Rightarrow> token list \<Rightarrow> (node \<times> token list) outcome"
  and p_factor :: "nat \<Rightarrow> token list \<Rightarrow> (node \<times> token list) outcome"
  and p_power :: "nat \<Rightarrow> token list \<Rightarrow> (node \<times> token list) outcome"
  and p_trailers :: "nat \<Rightarrow> node \<Rightarrow> token list \<Rightarrow> (node \<times> token list) outcome"
  and p_atom :: "nat \<Rightarrow> token list \<Rightarrow> (node \<times> token list) outcome"
where
  "p_elems 0 ts = Unmodelled"
| "p_elems (Suc n) ts =
     and_then (p_sum n ts) (\<lambda>(e, r).
       if is_op '','' r then
         (if tl r = [] \<or> is_op '')'' (tl r) then Rtn (e, [], True, tl r)
          else and_then (p_elems n (tl r)) (\<lambda>(e2, es, _, r2). Rtn (e, e2 # es, True, r2)))
       else Rtn (e, [], False, r))"
| "p_sum 0 ts = Unmodelled"
| "p_sum (Suc n) ts = and_then (p_term n ts) (\<lambda>(l, r). p_sum_rest n l r)"
| "p_sum_rest 0 l ts = Unmodelled"
| "p_sum_rest (Suc n) l ts =
     (if is_op ''+'' ts then and_then (p_term n (tl ts)) (\<lambda>(x, r). p_sum_rest n (BinOp l Add x) r)
      else if is_op ''-'' ts then and_then (p_term n (tl ts)) (\<lambda>(x, r). p_sum_rest n (BinOp l Sub x) r)
      else Rtn (l, ts))"
| "p_term 0 ts = Unmodelled"
| "p_term (Suc n) ts = and_then (p_factor n ts) (\<lambda>(l, r). p_term_rest n l r)"
| "p_term_rest 0 l ts = Unmodelled"
| "p_term_rest (Suc n) l ts =
     (if is_op ''*'' ts then and_then (p_factor n (tl ts)) (\<lambda>(x, r). p_term_rest n (BinOp l Mult x) r)
      else if is_op ''/'' ts then and_then (p_factor n (tl ts)) (\<lambda>(x, r). p_term_rest n (BinOp l Div x) r)
      else if is_op ''//'' ts then and_then (p_factor n (tl ts)) (\<lambda>(x, r). p_term_rest n (BinOp l FloorDiv x) r)
      else if is_op ''%'' ts then and_then (p_factor n (tl ts)) (\<lambda>(x, r). p_term_rest n (BinOp l Mod x) r)
      else Rtn (l, ts))"
| "p_factor 0 ts = Unmodelled"
| "p_factor (Suc n) ts =
     (if is_op ''+'' ts then and_then (p_factor n (tl ts)) (\<lambda>(x, r). Rtn (UnaryOp UAdd x, r))
      else if is_op ''-'' ts then and_then (p_factor n (tl ts)) (\<lambda>(x, r). Rtn (UnaryOp USub x, r))
      else p_power n ts)"
| "p_power 0 ts = Unmodelled"
| "p_power (Suc n) ts =
     and_then (p_atom n ts) (\<lambda>(a, r).
     and_then (p_trailers n a r) (\<lambda>(b, r2).
       if is_op ''**'' r2 then and_then (p_factor n (tl r2)) (\<lambda>(x, r3). Rtn (BinOp b Pow_op x, r3))
       else Rtn (b, r2)))"
| "p_trailers 0 f ts = Unmodelled"
| "p_trailers (Suc n) f ts =
     (if is_op ''('' ts then
        (if is_op '')'' (tl ts) then p_trailers n (Call f [] []) (tl (tl ts))
         else and_then (p_elems n (tl ts)) (\<lambda>(e, es, _, r).
                if is_op '')'' r then p_trailers n (Call f (e # es) []) (tl r)
                else Raise SyntaxError))
      else Rtn (f, ts))"
| "p_atom 0 ts = Unmodelled"
| "p_atom (Suc n) [] = Raise SyntaxError"
| "p_atom (Suc n) (NUMBER c # r) = Rtn (Constant c, r)"
| "p_atom (Suc n) (NAME x # r) =
     Rtn (if x = ''True'' then Constant (CBool True)
          else if x = ''False'' then Constant (CBool False)
          else if x = ''None'' then Constant CNone
          else Name x, r)"
| "p_atom (Suc n) (OP s # r) =
     (if s = ''('' then
        (if is_op '')'' r then Rtn (tuple_node [], tl r)
         else and_then (p_elems n r) (\<lambda>(e, es, comma, r2).
                if is_op '')'' r2
                then Rtn (if es = [] \<and> \<not> comma then e else tuple_node (e # es), tl r2)
                else Raise SyntaxError))
      else if s = ''*'' \<or> s = ''**'' then Unmodelled
      else Raise SyntaxError)"
  by pat_completeness auto

termination
  by (relation "measure (case_sum (case_sum (case_sum fst fst) (case_sum fst fst))
                  (case_sum (case_sum fst fst) (case_sum fst (case_sum fst fst))))") auto

text \<open>In mode \<^verbatim>\<open>eval\<close> the text is one expression, or expressions separated by commas
  (a tuple), up to the end of the text; the root is an \<^verbatim>\<open>Expression\<close> node.\<close>

definition parse :: "string \<Rightarrow> node outcome" where
  "parse s =
     and_then (lex s) (\<lambda>ts.
     and_then (p_elems (8 * length ts + 8) ts) (\<lambda>(e, es, comma, r).
       if r \<noteq> [] then Raise SyntaxError
       else Rtn (Expression (if es = [] \<and> \<not> comma then e else tuple_node (e # es)))))"

section \<open>The entry points\<close>

text \<open>
  \<^verbatim>\<open>percent_to_mul\<close> is \<^verbatim>\<open>re.sub(r'(\d+(?:\.\d+)?)%', r'(\1*0.01)', s)\<close>. A match
  starts at a digit and takes all the digits that follow (no shorter run can be followed by
  \<^verbatim>\<open>.\<close> or \<^verbatim>\<open>%\<close>), then a point and digits if a \<^verbatim>\<open>%\<close> follows them, then the
  \<^verbatim>\<open>%\<close>. \<open>match_percent\<close> gives the group and the number of characters matched.
\<close>

definition match_percent :: "string \<Rightarrow> (string \<times> nat) option" where
  "match_percent s =
     (let d1 = takeWhile is_digit s; r1 = dropWhile is_digit s
      in if d1 = [] then None
         else if r1 \<noteq> [] \<and> hd r1 = CHR ''%'' then Some (d1, length d1 + 1)
         else if r1 \<noteq> [] \<and> hd r1 = CHR ''.'' then
           (let d2 = takeWhile is_digit (tl r1); r2 = dropWhile is_digit (tl r1)
            in if d2 \<noteq> [] \<and> r2 \<noteq> [] \<and> hd r2 = CHR ''%''
               then Some (d1 @ ''.'' @ d2, length d1 + 1 + length d2 + 1)
               else None)
         else None)"

fun percent_to_mul :: "string \<Rightarrow> string" where
  "percent_to_mul [] = []"
| "percent_to_mul (c # cs) =
     (case match_percent (c # cs) of
        Some (g, k) \<Rightarrow> ''('' @ g @ ''*0.01)'' @ percent_to_mul (drop (k - 1) cs)
      | None \<Rightarrow> c # percent_to_mul cs)"

text \<open>\<^verbatim>\<open>safe_eval(expr, names)\<close>: \<^verbatim>\<open>calc_gui.py\<close> rewrites the text first.\<close>

definition safe_eval :: "libm \<Rightarrow> module \<Rightarrow> string \<Rightarrow> (string \<rightharpoonup> pyval) \<Rightarrow> pyval outcome" where
  "safe_eval L md expr names =
     and_then (parse (case md of Calc \<Rightarrow> expr | CalcGui \<Rightarrow> percent_to_mul expr))
       (\<lambda>tree. visit L md names tree)"

section \<open>The number formatter\<close>

definition digit_char :: "int \<Rightarrow> char" where
  "digit_char d = char_of (48 + d)"

text \<open>\<^verbatim>\<open>str\<close> of an \<^verbatim>\<open>int\<close>: its decimal digits, after a minus sign if it is negative.\<close>

text \<open>The decimal digits of an integer that is not negative.\<close>

function str_nat :: "int \<Rightarrow> string" where
  "str_nat n = (if n < 10 then [digit_char n] else str_nat (n div 10) @ [digit_char (n mod 10)])"
  by pat_completeness auto

termination
  by (relation "measure nat") auto

definition str_int :: "int \<Rightarrow> string" where
  "str_int i = (if i < 0 then CHR ''-'' # str_nat (- i) else str_nat i)"

definition pow10 :: "int \<Rightarrow> rat" where
  "pow10 k = (if 0 \<le> k then 10 ^ nat k else 1 / 10 ^ nat (- k))"

text \<open>\<open>ilog10 x\<close> is \<open>\<lfloor>log\<^sub>1\<^sub>0 x\<rfloor>\<close> for a positive rational, from the numbers of decimal digits
  of its numerator and denominator.\<close>

definition ilog10 :: "rat \<Rightarrow> int" where
  "ilog10 x =
     (let (n, d) = quotient_of x;
          k = int (length (str_nat n)) - int (length (str_nat d))
      in if (if 0 \<le> k then d * 10 ^ nat k \<le> n else d \<le> n * 10 ^ nat (- k)) then k else k - 1)"

text \<open>
  A positive rational rounded to 12 significant decimal digits (ties to even): the
  12-digit integer \<open>m\<close> and the decimal exponent \<open>X\<close> with value \<open>m \<times> 10\<^sup>X\<^sup>-\<^sup>1\<^sup>1\<close>.
\<close>

definition decimal_12 :: "rat \<Rightarrow> int \<times> int" where
  "decimal_12 q =
     (let x0 = ilog10 q; m0 = round_half_even (q * pow10 (11 - x0))
      in if m0 = 10 ^ 12 then (10 ^ 11, x0 + 1) else (m0, x0))"

definition strip_zeros :: "string \<Rightarrow> string" where
  "strip_zeros s = rev (dropWhile (\<lambda>c. c = CHR ''0'') (rev s))"

definition with_fraction :: "string \<Rightarrow> string \<Rightarrow> string" where
  "with_fraction ip fr = (if strip_zeros fr = [] then ip else ip @ ''.'' @ strip_zeros fr)"

text \<open>
  \<^verbatim>\<open>format(x, '.12g')\<close>: 12 significant digits, trailing zeros removed; positional
  notation for a decimal exponent from \<open>-4\<close> to \<open>11\<close>, and otherwise scientific notation
  with an exponent of at least two digits.
\<close>

definition format_12g :: "pyfloat \<Rightarrow> string" where
  "format_12g x =
     (case x of
        NaN \<Rightarrow> ''nan''
      | PInf \<Rightarrow> ''inf''
      | NInf \<Rightarrow> ''-inf''
      | Finite q \<Rightarrow>
          if q = 0 then ''0''
          else (case decimal_12 \<bar>q\<bar> of (m, X) \<Rightarrow>
                 (let ds = str_nat m
                  in (if q < 0 then ''-'' else [])
                     @ (if X < - 4 \<or> 12 \<le> X
                        then with_fraction (take 1 ds) (drop 1 ds) @ ''e''
                             @ (if X < 0 then ''-'' else ''+'')
                             @ (if \<bar>X\<bar> < 10 then ''0'' else []) @ str_nat \<bar>X\<bar>
                        else if 0 \<le> X
                        then with_fraction (take (nat X + 1) ds) (drop (nat X + 1) ds)
                        else with_fraction ''0'' (replicate (nat (- X - 1)) CHR ''0'' @ ds)))))"

text \<open>Python's \<^verbatim>\<open>int(x)\<close> (truncation of a \<^verbatim>\<open>float\<close>) and \<^verbatim>\<open>float.is_integer\<close>.\<close>

definition int_conv :: "pyval \<Rightarrow> int outcome" where
  "int_conv x =
     (case x of
        VInt i \<Rightarrow> Rtn i
      | VBool b \<Rightarrow> Rtn (if b then 1 else 0)
      | VFloat (Finite q) \<Rightarrow> Rtn (rtrunc q)
      | VFloat NaN \<Rightarrow> Raise (ValueError ''cannot convert float NaN to integer'')
      | VFloat _ \<Rightarrow> Raise OverflowError
      | _ \<Rightarrow> Raise TypeError)"

definition is_integer :: "pyfloat \<Rightarrow> bool" where
  "is_integer x = (case x of Finite q \<Rightarrow> of_int \<lfloor>q\<rfloor> = q | _ \<Rightarrow> False)"

text \<open>The last statement of both formatters: \<^verbatim>\<open>f"{float(x):.12g}"\<close>.\<close>

definition format_float :: "pyval \<Rightarrow> string outcome" where
  "format_float x = and_then (as_float x) (\<lambda>f. Rtn (format_12g f))"

text \<open>
  \<^verbatim>\<open>format_num\<close> of \<^verbatim>\<open>calc.py\<close>: \<^verbatim>\<open>str(int(x))\<close> if \<^verbatim>\<open>x == int(x)\<close>; an
  exception in that test is swallowed.
\<close>

definition format_num :: "pyval \<Rightarrow> string outcome" where
  "format_num x =
     (case int_conv x of
        Rtn n \<Rightarrow> if py_eq x (VInt n) then Rtn (str_int n) else format_float x
      | _ \<Rightarrow> format_float x)"

text \<open>
  \<^verbatim>\<open>fmt_num\<close> of \<^verbatim>\<open>calc_gui.py\<close>: \<^verbatim>\<open>str(int(x))\<close> if
  \<^verbatim>\<open>float(x).is_integer()\<close>; an exception in that test is swallowed.
\<close>

definition fmt_num :: "pyval \<Rightarrow> string outcome" where
  "fmt_num x =
     (case as_float x of
        Rtn f \<Rightarrow>
          if is_integer f
          then (case int_conv x of Rtn n \<Rightarrow> Rtn (str_int n) | _ \<Rightarrow> format_float x)
          else format_float x
      | _ \<Rightarrow> format_float x)"

section \<open>Notions used by the properties\<close>

text \<open>The spec's numeric values: an Integer (\<^verbatim>\<open>int\<close>, \<^verbatim>\<open>bool\<close>) or a Real
  (\<^verbatim>\<open>float\<close>).\<close>

definition is_real :: "pyval \<Rightarrow> bool" where
  "is_real v = (case v of VInt _ \<Rightarrow> True | VBool _ \<Rightarrow> True | VFloat _ \<Rightarrow> True | _ \<Rightarrow> False)"

text \<open>The significant digits of a rendered number: the digits before any exponent,
  without the leading zeros.\<close>

definition sig_digits :: "string \<Rightarrow> nat" where
  "sig_digits s =
     length (dropWhile (\<lambda>c. c = CHR ''0'') (filter is_digit (takeWhile (\<lambda>c. c \<noteq> CHR ''e'') s)))"

text \<open>The text that \<^verbatim>\<open>safe_eval\<close> hands to \<^verbatim>\<open>ast.parse\<close>: the expression itself in
  \<^verbatim>\<open>calc.py\<close>, the result of \<^verbatim>\<open>percent_to_mul\<close> in \<^verbatim>\<open>calc_gui.py\<close>.\<close>

definition parsed_text :: "module \<Rightarrow> string \<Rightarrow> string" where
  "parsed_text md expr = (case md of Calc \<Rightarrow> expr | CalcGui \<Rightarrow> percent_to_mul expr)"

text \<open>The spec's precedence table for the binary operators: additive \<^verbatim>\<open>+ -\<close> (level 1),
  multiplicative \<^verbatim>\<open>* / // %\<close> (level 2), both left-associative, and the power \<^verbatim>\<open>**\<close>
  (level 4), right-associative; the unary prefix operators are level 3. \<open>table_tree\<close> is the
  tree that the table prescribes for \<open>a s b t c\<close>: the operator of the higher level takes its
  operands first, and of two operators of one level the left one does, but for \<^verbatim>\<open>**\<close>.\<close>

definition binary_ops :: "string list" where
  "binary_ops = [''+'', ''-'', ''*'', ''/'', ''//'', ''%'', ''**'']"

definition op_level :: "string \<Rightarrow> nat" where
  "op_level s = (if s = ''+'' \<or> s = ''-'' then 1 else if s = ''**'' then 4 else 2)"

definition op_node :: "string \<Rightarrow> operator" where
  "op_node s =
     (if s = ''+'' then Add else if s = ''-'' then Sub else if s = ''*'' then Mult
      else if s = ''/'' then Div else if s = ''//'' then FloorDiv else if s = ''%'' then Mod
      else Pow_op)"

definition table_tree :: "node \<Rightarrow> string \<Rightarrow> node \<Rightarrow> string \<Rightarrow> node \<Rightarrow> node" where
  "table_tree a s b t c =
     (if op_level s < op_level t \<or> (op_level s = 4 \<and> op_level t = 4)
      then BinOp a (op_node s) (BinOp b (op_node t) c)
      else BinOp (BinOp a (op_node s) b) (op_node t) c)"

section \<open>Evaluations of the quoted expressions\<close>

lemma calc_2_plus_3_times_4: "safe_eval L Calc ''2+3*4'' Map.empty = Rtn (VInt 14)"
  by code_simp

lemma gui_2_plus_3_times_4: "safe_eval L CalcGui ''2+3*4'' Map.empty = Rtn (VInt 14)"
  by code_simp

lemma calc_paren_sum_times_4: "safe_eval L Calc ''(2+3)*4'' Map.empty = Rtn (VInt 20)"
  by code_simp

lemma gui_paren_sum_times_4: "safe_eval L CalcGui ''(2+3)*4'' Map.empty = Rtn (VInt 20)"
  by code_simp

lemma calc_minus_2_pow_2: "safe_eval L Calc ''-2**2'' Map.empty = Rtn (VInt (- 4))"
  by code_simp

lemma gui_minus_2_pow_2: "safe_eval L CalcGui ''-2**2'' Map.empty = Rtn (VInt (- 4))"
  by code_simp

lemma calc_2_pow_minus_2: "safe_eval L Calc ''2**-2'' Map.empty = Rtn (VFloat (Finite (1 / 4)))"
  by code_simp

lemma gui_2_pow_minus_2: "safe_eval L CalcGui ''2**-2'' Map.empty = Rtn (VFloat (Finite (1 / 4)))"
  by code_simp

lemma parse_minus_2_pow_2:
  "parse ''-2**2'' =
     Rtn (Expression (UnaryOp USub (BinOp (Constant (CInt 2)) Pow_op (Constant (CInt 2)))))"
  by code_simp

lemma parse_2_pow_minus_2:
  "parse ''2**-2'' =
     Rtn (Expression (BinOp (Constant (CInt 2)) Pow_op (UnaryOp USub (Constant (CInt 2)))))"
  by code_simp













lemma calc_4_div_2: "safe_eval L Calc ''4/2'' Map.empty = Rtn (VFloat (Finite 2))"
  by code_simp

lemma gui_4_div_2: "safe_eval L CalcGui ''4/2'' Map.empty = Rtn (VFloat (Finite 2))"
  by code_simp

lemma calc_ans_bound:
  "safe_eval L Calc ''ans+1'' [''ans'' \<mapsto> VFloat (Finite 4)] = Rtn (VFloat (Finite 5))"
  by code_simp

lemma gui_ans_bound:
  "safe_eval L CalcGui ''ans+1'' [''ans'' \<mapsto> VFloat (Finite 4)] = Rtn (VFloat (Finite 5))"
  by code_simp

lemma calc_ans_unbound:
  "safe_eval L Calc ''ans+1'' Map.empty = Raise (ValueError (''name '' @ quoted ''ans'' @ '' not allowed''))"
  by code_simp

lemma gui_ans_unbound:
  "safe_eval L CalcGui ''ans+1'' Map.empty = Raise (ValueError (''name '' @ quoted ''ans'' @ '' not allowed''))"
  by code_simp

lemma calc_pi_shadowed: "safe_eval L Calc ''pi'' [''pi'' \<mapsto> VInt 3] = Rtn (VInt 3)"
  by code_simp

lemma calc_True: "safe_eval L Calc ''True'' Map.empty = Rtn (VBool True)"
  by code_simp

lemma gui_True: "safe_eval L CalcGui ''True'' Map.empty = Rtn (VBool True)"
  by code_simp

lemma calc_True_plus_True: "safe_eval L Calc ''True+True'' Map.empty = Rtn (VInt 2)"
  by code_simp

lemma gui_True_plus_True: "safe_eval L CalcGui ''True+True'' Map.empty = Rtn (VInt 2)"
  by code_simp

lemma format_True: "format_num (VBool True) = Rtn ''1''"
  by code_simp

lemma calc_sqrt_1_2: "safe_eval L Calc ''sqrt(1,2)'' Map.empty = Raise TypeError"
  by code_simp

lemma gui_sqrt_1_2: "safe_eval L CalcGui ''sqrt(1,2)'' Map.empty = Raise TypeError"
  by code_simp

lemma py_eq_True_1: "py_eq (VBool True) (VInt 1)"
  by code_simp

lemma py_eq_5: "py_eq (VFloat (Finite 5)) (VInt 5)"
  by code_simp

lemma calc_10_minus_3_minus_2: "safe_eval L Calc ''10-3-2'' Map.empty = Rtn (VInt 5)"
  by code_simp

lemma gui_10_minus_3_minus_2: "safe_eval L CalcGui ''10-3-2'' Map.empty = Rtn (VInt 5)"
  by code_simp

lemma calc_10_minus_3_plus_2: "safe_eval L Calc ''10-3+2'' Map.empty = Rtn (VInt 9)"
  by code_simp

lemma gui_10_minus_3_plus_2: "safe_eval L CalcGui ''10-3+2'' Map.empty = Rtn (VInt 9)"
  by code_simp

lemma calc_power_tower: "safe_eval L Calc ''2**3**2'' Map.empty = Rtn (VInt 512)"
  by code_simp

lemma gui_power_tower: "safe_eval L CalcGui ''2**3**2'' Map.empty = Rtn (VInt 512)"
  by code_simp

lemma calc_100_div_10_div_5: "safe_eval L Calc ''100/10/5'' Map.empty = Rtn (VFloat (Finite 2))"
  by code_simp

lemma gui_100_div_10_div_5: "safe_eval L CalcGui ''100/10/5'' Map.empty = Rtn (VFloat (Finite 2))"
  by code_simp

lemma calc_12_div_4_times_3: "safe_eval L Calc ''12/4*3'' Map.empty = Rtn (VFloat (Finite 9))"
  by code_simp

lemma gui_12_div_4_times_3: "safe_eval L CalcGui ''12/4*3'' Map.empty = Rtn (VFloat (Finite 9))"
  by code_simp

lemma calc_8_floordiv_3_floordiv_2: "safe_eval L Calc ''8//3//2'' Map.empty = Rtn (VInt 1)"
  by code_simp

lemma gui_8_floordiv_3_floordiv_2: "safe_eval L CalcGui ''8//3//2'' Map.empty = Rtn (VInt 1)"
  by code_simp

lemma calc_2_times_3_pow_2: "safe_eval L Calc ''2*3**2'' Map.empty = Rtn (VInt 18)"
  by code_simp

lemma gui_2_times_3_pow_2: "safe_eval L CalcGui ''2*3**2'' Map.empty = Rtn (VInt 18)"
  by code_simp

lemma calc_2_minus_3_times_4: "safe_eval L Calc ''2-3*4'' Map.empty = Rtn (VInt (- 10))"
  by code_simp

lemma gui_2_minus_3_times_4: "safe_eval L CalcGui ''2-3*4'' Map.empty = Rtn (VInt (- 10))"
  by code_simp

lemma calc_minus_2_times_3: "safe_eval L Calc ''-2*3'' Map.empty = Rtn (VInt (- 6))"
  by code_simp

lemma gui_minus_2_times_3: "safe_eval L CalcGui ''-2*3'' Map.empty = Rtn (VInt (- 6))"
  by code_simp

lemma calc_7_mod_4_mod_2: "safe_eval L Calc ''7%4%2'' Map.empty = Rtn (VInt 1)"
  by code_simp

lemma lex_gui_10_minus_3_minus_2:
  "lex (parsed_text CalcGui ''10-3-2'')
     = Rtn [NUMBER (CInt 10), OP ''-'', NUMBER (CInt 3), OP ''-'', NUMBER (CInt 2)]"
  by code_simp

lemma lex_calc_power_tower:
  "lex (parsed_text Calc ''2**3**2'')
     = Rtn [NUMBER (CInt 2), OP ''**'', NUMBER (CInt 3), OP ''**'', NUMBER (CInt 2)]"
  by code_simp

lemma lex_calc_paren_sum_times_4:
  "lex (parsed_text Calc ''(2+3)*4'')
     = Rtn [OP ''('', NUMBER (CInt 2), OP ''+'', NUMBER (CInt 3), OP '')'', OP ''*'', NUMBER (CInt 4)]"
  by code_simp

lemma lex_gui_minus_2_pow_2:
  "lex (parsed_text CalcGui ''-2**2'') = Rtn [OP ''-'', NUMBER (CInt 2), OP ''**'', NUMBER (CInt 2)]"
  by code_simp

lemma lex_calc_2_pow_minus_2:
  "lex (parsed_text Calc ''2**-2'') = Rtn [NUMBER (CInt 2), OP ''**'', OP ''-'', NUMBER (CInt 2)]"
  by code_simp

lemma lex_calc_minus_2_times_3:
  "lex (parsed_text Calc ''-2*3'') = Rtn [OP ''-'', NUMBER (CInt 2), OP ''*'', NUMBER (CInt 3)]"
  by code_simp

lemma visit_power_tower:
  "visit L md Map.empty (Expression (table_tree (Constant (CInt 2)) ''**'' (Constant (CInt 3)) ''**''
      (Constant (CInt 2)))) = Rtn (VInt 512)"
  by code_simp

lemma visit_paren_sum_times_4:
  "visit L md Map.empty (Expression (BinOp (BinOp (Constant (CInt 2)) (op_node ''+'') (Constant (CInt 3)))
      (op_node ''*'') (Constant (CInt 4)))) = Rtn (VInt 20)"
  by code_simp

lemma visit_minus_2_pow_2:
  "visit L md Map.empty (Expression (UnaryOp USub (BinOp (Constant (CInt 2)) Pow_op (Constant (CInt 2)))))
     = Rtn (VInt (- 4))"
  by code_simp

lemma visit_2_pow_minus_2:
  "visit L md Map.empty (Expression (BinOp (Constant (CInt 2)) Pow_op (UnaryOp USub (Constant (CInt 2)))))
     = Rtn (VFloat (Finite (1 / 4)))"
  by code_simp

lemma visit_minus_2_times_3:
  "visit L md Map.empty (Expression (BinOp (UnaryOp USub (Constant (CInt 2))) (op_node ''*'')
      (Constant (CInt 3)))) = Rtn (VInt (- 6))"
  by code_simp

text \<open>The parser on the token sequences of two binary operators, for all 49 pairs of
  operators and any three literals; with a parenthesised first pair; and with a unary minus.\<close>

lemma three_operands_all:
  "list_all (\<lambda>(s, t). p_elems 48 [NUMBER a, OP s, NUMBER b, OP t, NUMBER c]
       = Rtn (table_tree (Constant a) s (Constant b) t (Constant c), [], False, []))
     (List.product binary_ops binary_ops)"
  by code_simp

lemma parenthesised_first_all:
  "list_all (\<lambda>(s, t). p_elems 64 [OP ''('', NUMBER a, OP s, NUMBER b, OP '')'', OP t, NUMBER c]
       = Rtn (BinOp (BinOp (Constant a) (op_node s) (Constant b)) (op_node t) (Constant c),
              [], False, []))
     (List.product binary_ops binary_ops)"
  by code_simp

lemma minus_before_power:
  "p_elems 40 [OP ''-'', NUMBER a, OP ''**'', NUMBER b]
     = Rtn (UnaryOp USub (BinOp (Constant a) Pow_op (Constant b)), [], False, [])"
  by code_simp

lemma minus_in_exponent:
  "p_elems 40 [NUMBER a, OP ''**'', OP ''-'', NUMBER b]
     = Rtn (BinOp (Constant a) Pow_op (UnaryOp USub (Constant b)), [], False, [])"
  by code_simp

lemma minus_before_product:
  "list_all (\<lambda>t. p_elems 40 [OP ''-'', NUMBER a, OP t, NUMBER b]
       = Rtn (if t = ''**'' then UnaryOp USub (BinOp (Constant a) Pow_op (Constant b))
              else BinOp (UnaryOp USub (Constant a)) (op_node t) (Constant b), [], False, []))
     binary_ops"
  by code_simp

lemma table_tree_minus_minus: "table_tree a ''-'' b ''-'' c = BinOp (BinOp a Sub b) Sub c"
  by code_simp

section \<open>General facts about the evaluator\<close>

declare percent_to_mul.simps [simp del] lex.simps [simp del]

lemma and_then_Rtn: "and_then (Rtn v) f = f v"
  by (simp add: and_then_def)

lemma safe_eval_Calc: "safe_eval L Calc s names = and_then (parse s) (visit L Calc names)"
  by (simp add: safe_eval_def)

lemma safe_eval_CalcGui:
  "safe_eval L CalcGui s names = and_then (parse (percent_to_mul s)) (visit L CalcGui names)"
  by (simp add: safe_eval_def)

lemma visit_all_length:
  "visit_all L md names args = Rtn vs \<Longrightarrow> length vs = length args"
  by (induction args arbitrary: vs) (auto simp: and_then_def split: outcome.splits)

lemma call_func_arity:
  "fn \<noteq> M_log \<Longrightarrow> length vs \<noteq> 1 \<Longrightarrow> call_func L fn vs = Raise TypeError"
  by (cases fn; cases vs; simp add: call_func_def split: list.splits)

lemma call_func_log_arity:
  "length vs \<noteq> 1 \<Longrightarrow> length vs \<noteq> 2 \<Longrightarrow> call_func L M_log vs = Raise TypeError"
  by (cases vs) (auto simp: call_func_def split: list.splits)

lemma floor_half: "\<lfloor>1 / 2 :: rat\<rfloor> = 0"
  by code_simp

lemma round53_neg8: "round53 (- 8) = Finite (- 8)"
  by code_simp

lemma parse_neg8_pow_half:
  "parse ''(-8)**0.5'' =
     Rtn (Expression (BinOp (UnaryOp USub (Constant (CInt 8))) Pow_op
            (Constant (CFloat (Finite (1 / 2))))))"
  by code_simp

lemma percent_to_mul_neg8_pow_half: "percent_to_mul ''(-8)**0.5'' = ''(-8)**0.5''"
  by code_simp

lemma float_pow_negative_fractional:
  assumes "v < 0" "of_int \<lfloor>w\<rfloor> \<noteq> w"
  shows "float_pow L (Finite v) (Finite w) =
           (case pow_c L \<bar>v\<bar> w of PInf \<Rightarrow> Raise OverflowError | NInf \<Rightarrow> Raise OverflowError
            | _ \<Rightarrow> Rtn VComplex)"
  using assms by (auto simp: float_pow_def)

lemma parse_ln_8_2:
  "parse ''ln(8,2)'' = Rtn (Expression (Call (Name ''ln'') [Constant (CInt 8), Constant (CInt 2)] []))"
  by code_simp

lemma percent_to_mul_ln_8_2: "percent_to_mul ''ln(8,2)'' = ''ln(8,2)''"
  by code_simp

lemma allowed_ln: "ALLOWED_FUNCS ''ln'' = Some M_log"
  by code_simp

lemma allowed_sqrt: "ALLOWED_FUNCS ''sqrt'' = Some M_sqrt"
  by code_simp

lemma ln_8_2:
  assumes "c_log L 2 \<noteq> 0"
  shows "safe_eval L md ''ln(8,2)'' Map.empty =
           Rtn (VFloat (fdiv (Finite (c_log L 8)) (Finite (c_log L 2))))"
proof -
  have "visit L md Map.empty (Expression (Call (Name ''ln'') [Constant (CInt 8), Constant (CInt 2)] []))
          = Rtn (VFloat (fdiv (Finite (c_log L 8)) (Finite (c_log L 2))))"
    using assms
    by (cases md)
       (simp_all add: allowed_ln call_check_def visit_Constant_def and_then_def call_func_def
          loghelper_def as_int_def float_div_def del: fdiv.simps)
  then show ?thesis
    by (cases md)
       (simp_all only: safe_eval_Calc safe_eval_CalcGui parse_ln_8_2 percent_to_mul_ln_8_2 and_then_Rtn)
qed

lemma safe_eval_parsed_text:
  "safe_eval L md expr names = and_then (parse (parsed_text md expr)) (visit L md names)"
  by (simp add: safe_eval_def parsed_text_def)

lemma binary_ops_mem:
  "''+'' \<in> set binary_ops" "''-'' \<in> set binary_ops" "''*'' \<in> set binary_ops"
  "''/'' \<in> set binary_ops" "''//'' \<in> set binary_ops" "''%'' \<in> set binary_ops"
  "''**'' \<in> set binary_ops"
  by (simp_all add: binary_ops_def)

lemma neq_times_pow: "''*'' \<noteq> ''**''"
  by simp

lemma parse_three_operands:
  assumes "s \<in> set binary_ops" "t \<in> set binary_ops"
    "lex expr = Rtn [NUMBER a, OP s, NUMBER b, OP t, NUMBER c]"
  shows "parse expr = Rtn (Expression (table_tree (Constant a) s (Constant b) t (Constant c)))"
proof -
  have "(s, t) \<in> set (List.product binary_ops binary_ops)"
    using assms(1,2) by simp
  then have "p_elems 48 [NUMBER a, OP s, NUMBER b, OP t, NUMBER c]
       = Rtn (table_tree (Constant a) s (Constant b) t (Constant c), [], False, [])"
    using three_operands_all[of a b c] unfolding list_all_iff by blast
  then show ?thesis
    by (simp add: parse_def assms(3) and_then_def)
qed

lemma parse_parenthesised_first:
  assumes "s \<in> set binary_ops" "t \<in> set binary_ops"
    "lex expr = Rtn [OP ''('', NUMBER a, OP s, NUMBER b, OP '')'', OP t, NUMBER c]"
  shows "parse expr = Rtn (Expression (BinOp (BinOp (Constant a) (op_node s) (Constant b))
                                          (op_node t) (Constant c)))"
proof -
  have "(s, t) \<in> set (List.product binary_ops binary_ops)"
    using assms(1,2) by simp
  then have "p_elems 64 [OP ''('', NUMBER a, OP s, NUMBER b, OP '')'', OP t, NUMBER c]
       = Rtn (BinOp (BinOp (Constant a) (op_node s) (Constant b)) (op_node t) (Constant c),
              [], False, [])"
    using parenthesised_first_all[of a b c] unfolding list_all_iff by blast
  then show ?thesis
    by (simp add: parse_def assms(3) and_then_def)
qed

lemma parse_minus_before_power:
  assumes "lex expr = Rtn [OP ''-'', NUMBER a, OP ''**'', NUMBER b]"
  shows "parse expr = Rtn (Expression (UnaryOp USub (BinOp (Constant a) Pow_op (Constant b))))"
  using minus_before_power[of a b] by (simp add: parse_def assms and_then_def)

lemma parse_minus_in_exponent:
  assumes "lex expr = Rtn [NUMBER a, OP ''**'', OP ''-'', NUMBER b]"
  shows "parse expr = Rtn (Expression (BinOp (Constant a) Pow_op (UnaryOp USub (Constant b))))"
  using minus_in_exponent[of a b] by (simp add: parse_def assms and_then_def)

lemma parse_minus_before_product:
  assumes "t \<in> set binary_ops" "t \<noteq> ''**''"
    "lex expr = Rtn [OP ''-'', NUMBER a, OP t, NUMBER b]"
  shows "parse expr = Rtn (Expression (BinOp (UnaryOp USub (Constant a)) (op_node t) (Constant b)))"
proof -
  have "p_elems 40 [OP ''-'', NUMBER a, OP t, NUMBER b]
       = Rtn (BinOp (UnaryOp USub (Constant a)) (op_node t) (Constant b), [], False, [])"
    using minus_before_product[of a b] assms(1,2) unfolding list_all_iff by auto
  then show ?thesis
    by (simp add: parse_def assms(3) and_then_def)
qed

lemma int_difference_chain:
  "visit L md names (Expression (table_tree (Constant (CInt x)) ''-'' (Constant (CInt y)) ''-''
       (Constant (CInt z)))) = Rtn (VInt (x - y - z))"
  by (simp add: table_tree_minus_minus visit_Constant_def and_then_def binop_def py_sub_def
        py_binary_def as_int_def)

section \<open>Facts about the formatter\<close>

lemma digit_chars:
  "digit_char 0 = CHR ''0''" "digit_char 1 = CHR ''1''" "digit_char 2 = CHR ''2''"
  "digit_char 3 = CHR ''3''" "digit_char 4 = CHR ''4''" "digit_char 5 = CHR ''5''"
  "digit_char 6 = CHR ''6''" "digit_char 7 = CHR ''7''" "digit_char 8 = CHR ''8''"
  "digit_char 9 = CHR ''9''"
  by code_simp+

lemma is_digit_digit_char: "0 \<le> d \<Longrightarrow> d < 10 \<Longrightarrow> is_digit (digit_char d)"
proof -
  assume "0 \<le> d" "d < 10"
  then have "d = 0 \<or> d = 1 \<or> d = 2 \<or> d = 3 \<or> d = 4 \<or> d = 5 \<or> d = 6 \<or> d = 7 \<or> d = 8 \<or> d = 9"
    by presburger
  then show ?thesis
    by (auto simp: digit_chars is_digit_def)
qed

declare str_nat.simps [simp del]

lemma str_nat_digits: "0 \<le> n \<Longrightarrow> list_all is_digit (str_nat n)"
proof (induction n rule: str_nat.induct)
  case (1 n)
  show ?case
  proof (cases "n < 10")
    case True
    then show ?thesis using 1(2) by (subst str_nat.simps) (simp add: is_digit_digit_char)
  next
    case False
    then have "list_all is_digit (str_nat (n div 10))" using 1 by simp
    moreover have "is_digit (digit_char (n mod 10))" by (simp add: is_digit_digit_char)
    ultimately show ?thesis using False by (subst str_nat.simps) simp
  qed
qed

lemma str_nat_upper: "0 \<le> n \<Longrightarrow> n < 10 ^ length (str_nat n)"
proof (induction n rule: str_nat.induct)
  case (1 n)
  show ?case
  proof (cases "n < 10")
    case True
    then show ?thesis by (subst str_nat.simps) simp
  next
    case False
    then have "n div 10 < 10 ^ length (str_nat (n div 10))" using 1 by simp
    then have "n < 10 * 10 ^ length (str_nat (n div 10))" by linarith
    then show ?thesis using False by (subst str_nat.simps) simp
  qed
qed

lemma str_nat_lower: "1 \<le> n \<Longrightarrow> 10 ^ (length (str_nat n) - 1) \<le> n"
proof (induction n rule: str_nat.induct)
  case (1 n)
  show ?case
  proof (cases "n < 10")
    case True
    then show ?thesis using 1(2) by (subst str_nat.simps) simp
  next
    case False
    then have ih: "10 ^ (length (str_nat (n div 10)) - 1) \<le> n div 10" using 1 by simp
    have pos: "0 < length (str_nat (n div 10))"
      by (subst str_nat.simps) simp
    have "(10::int) ^ length (str_nat (n div 10)) = 10 * 10 ^ (length (str_nat (n div 10)) - 1)"
      using pos by (cases "length (str_nat (n div 10))") simp_all
    then have "10 ^ length (str_nat (n div 10)) \<le> n" using ih by linarith
    then show ?thesis using False by (subst str_nat.simps) simp
  qed
qed

lemma str_nat_length_le:
  assumes "0 \<le> m" "m < 10 ^ k" "0 < k"
  shows "length (str_nat m) \<le> k"
proof (cases "m = 0")
  case True
  then show ?thesis using assms by (subst str_nat.simps) simp
next
  case False
  then have "10 ^ (length (str_nat m) - 1) \<le> m" using assms str_nat_lower[of m] by simp
  then have "(10::int) ^ (length (str_nat m) - 1) < 10 ^ k" using assms by linarith
  then have "length (str_nat m) - 1 < k" by (simp add: power_strict_increasing_iff)
  then show ?thesis by simp
qed

lemma pow10_powi: "pow10 k = 10 powi k"
  by (simp add: pow10_def power_int_def inverse_eq_divide power_one_over)

lemma pow10_pos: "0 < pow10 k"
  by (simp add: pow10_powi)

lemma pow10_add: "pow10 a * pow10 b = pow10 (a + b)"
  by (simp add: pow10_powi power_int_add)

lemma pow10_nat: "pow10 (int k) = 10 ^ k"
  by (simp add: pow10_def)

lemma pow10_diff: "pow10 (int a - int c) = 10 ^ a / 10 ^ c"
  by (simp add: pow10_powi power_int_diff)

lemma ilog10_upper:
  assumes "0 < q"
  shows "q < pow10 (ilog10 q + 1)"
proof -
  obtain n d where nd: "quotient_of q = (n, d)" by (cases "quotient_of q") auto
  have dpos: "0 < d" using nd by (rule quotient_of_denom_pos)
  have q: "q = of_int n / of_int d" using nd by (rule quotient_of_div)
  have npos: "0 < n" using assms dpos q by (simp add: zero_less_divide_iff)
  define a where "a = length (str_nat n)"
  define b where "b = length (str_nat d)"
  define k where "k = int a - int b"
  have nup: "n < 10 ^ a" unfolding a_def using npos by (intro str_nat_upper) simp
  have dlow: "10 ^ (b - 1) \<le> d" unfolding b_def using dpos by (intro str_nat_lower) simp
  have bpos: "0 < b" unfolding b_def by (subst str_nat.simps) simp
  let ?t = "(if 0 \<le> k then d * 10 ^ nat k \<le> n else d \<le> n * 10 ^ nat (- k))"
  have il: "ilog10 q = (if ?t then k else k - 1)"
    by (simp add: ilog10_def nd k_def a_def b_def Let_def)
  show ?thesis
  proof (cases ?t)
    case True
    have "of_int n * (10::rat) ^ (b - 1) \<le> of_int n * of_int d"
    proof -
      have "(10::rat) ^ (b - 1) \<le> of_int d"
        using dlow by (metis of_int_le_iff of_int_numeral of_int_power)
      then show ?thesis using npos by (simp add: mult_left_mono)
    qed
    also have "\<dots> < 10 ^ a * of_int d"
    proof -
      have "(of_int n :: rat) < 10 ^ a"
        using nup by (metis of_int_less_iff of_int_numeral of_int_power)
      then show ?thesis using dpos by (simp add: mult_strict_right_mono)
    qed
    finally have "of_int n / of_int d < (10::rat) ^ a / 10 ^ (b - 1)"
      using dpos by (simp add: divide_simps mult.commute)
    moreover have "pow10 (k + 1) = 10 ^ a / 10 ^ (b - 1)"
    proof -
      have "k + 1 = int a - int (b - 1)" using bpos by (simp add: k_def)
      then show ?thesis by (simp only: pow10_diff)
    qed
    ultimately show ?thesis using True il q by simp
  next
    case False
    have "q < pow10 k"
    proof (cases "0 \<le> k")
      case True
      then have "n < d * 10 ^ nat k" using False by simp
      then have "(of_int n :: rat) < of_int (d * 10 ^ nat k)" by (simp only: of_int_less_iff)
      then have "(of_int n :: rat) < of_int d * 10 ^ nat k" by simp
      then have "of_int n / of_int d < (10::rat) ^ nat k"
        using dpos by (simp add: divide_simps mult.commute)
      then show ?thesis using True q by (simp add: pow10_def)
    next
      case neg: False
      then have "n * 10 ^ nat (- k) < d" using False by simp
      then have "(of_int (n * 10 ^ nat (- k)) :: rat) < of_int d" by (simp only: of_int_less_iff)
      then have "(of_int n :: rat) * 10 ^ nat (- k) < of_int d" by simp
      then have "of_int n / of_int d < 1 / (10::rat) ^ nat (- k)"
        using dpos by (simp add: divide_simps mult.commute)
      then show ?thesis using neg q by (simp add: pow10_def)
    qed
    then show ?thesis using False il by simp
  qed
qed

lemma round_half_even_bounds: "\<lfloor>x\<rfloor> \<le> round_half_even x \<and> round_half_even x \<le> \<lfloor>x\<rfloor> + 1"
  by (simp add: round_half_even_def Let_def)

lemma decimal_12_bounds:
  assumes "0 < q" "decimal_12 q = (m, X)"
  shows "0 \<le> m \<and> m < 10 ^ 12"
proof -
  define y where "y = q * pow10 (11 - ilog10 q)"
  have ypos: "0 < y" unfolding y_def using assms(1) pow10_pos by simp
  have "y < pow10 (ilog10 q + 1) * pow10 (11 - ilog10 q)"
    unfolding y_def using ilog10_upper[OF assms(1)] pow10_pos by (simp add: mult_strict_right_mono)
  also have "\<dots> = pow10 12"
    by (simp only: pow10_add) simp
  also have "\<dots> = 10 ^ 12"
    by (simp add: pow10_def)
  finally have "y < 10 ^ 12" .
  then have "\<lfloor>y\<rfloor> < 10 ^ 12" by (simp add: floor_less_iff)
  moreover have "0 \<le> \<lfloor>y\<rfloor>" using ypos by simp
  ultimately have m0: "0 \<le> round_half_even y \<and> round_half_even y \<le> 10 ^ 12"
    using round_half_even_bounds[of y] by linarith
  show ?thesis
    using assms(2) m0 unfolding decimal_12_def y_def[symmetric] Let_def
    by (auto split: if_splits)
qed

lemma dropWhile_prefix_length: "length (dropWhile P p) \<le> length (dropWhile P (p @ t))"
  by (induction p) auto

lemma strip_zeros_prefix: "\<exists>t. s = strip_zeros s @ t"
proof -
  have "rev (takeWhile (\<lambda>c. c = CHR ''0'') (rev s) @ dropWhile (\<lambda>c. c = CHR ''0'') (rev s))
          = rev (rev s)"
    by (simp only: takeWhile_dropWhile_id)
  then have "rev (dropWhile (\<lambda>c. c = CHR ''0'') (rev s)) @ rev (takeWhile (\<lambda>c. c = CHR ''0'') (rev s)) = s"
    by (simp only: rev_append rev_rev_ident)
  then have "s = strip_zeros s @ rev (takeWhile (\<lambda>c. c = CHR ''0'') (rev s))"
    by (simp only: strip_zeros_def)
  then show ?thesis by (rule exI)
qed

lemma strip_zeros_digits: "list_all is_digit s \<Longrightarrow> list_all is_digit (strip_zeros s)"
proof -
  assume a: "list_all is_digit s"
  obtain t where "s = strip_zeros s @ t" using strip_zeros_prefix by blast
  then have "list_all is_digit (strip_zeros s @ t)" using a by simp
  then show ?thesis by simp
qed

lemma is_digit_not_e: "is_digit c \<Longrightarrow> c \<noteq> CHR ''e''"
  by (auto simp: is_digit_def)

lemma not_digit_point: "\<not> is_digit CHR ''.''" "\<not> is_digit CHR ''-''"
  by (simp_all add: is_digit_def)

lemma no_e_digits: "list_all is_digit s \<Longrightarrow> CHR ''e'' \<notin> set s"
  unfolding list_all_iff using is_digit_not_e by blast

lemma set_with_fraction:
  "set (with_fraction ip fr) \<subseteq> set ip \<union> {CHR ''.''} \<union> set (strip_zeros fr)"
  unfolding with_fraction_def by (cases "strip_zeros fr = []") auto

lemma filter_digits_id: "list_all is_digit s \<Longrightarrow> filter is_digit s = s"
  unfolding list_all_iff by (rule filter_True) blast

lemma filter_with_fraction:
  assumes "list_all is_digit ip" "list_all is_digit (strip_zeros fr)"
  shows "filter is_digit (with_fraction ip fr) = ip @ strip_zeros fr"
proof (cases "strip_zeros fr = []")
  case True
  then show ?thesis
    unfolding with_fraction_def using filter_digits_id[OF assms(1)] by simp
next
  case False
  have "filter is_digit (ip @ ''.'' @ strip_zeros fr) = ip @ strip_zeros fr"
    using filter_digits_id[OF assms(1)] filter_digits_id[OF assms(2)] not_digit_point(1)
    by simp
  then show ?thesis
    unfolding with_fraction_def using False by simp
qed

lemma sig_digits_mantissa:
  assumes "list_all is_digit ip" "list_all is_digit fr" "sn = [] \<or> sn = ''-''"
    "rest = [] \<or> (\<exists>r. rest = CHR ''e'' # r)"
  shows "sig_digits (sn @ with_fraction ip fr @ rest)
           = length (dropWhile (\<lambda>c. c = CHR ''0'') (ip @ strip_zeros fr))"
proof -
  have sd: "list_all is_digit (strip_zeros fr)" using assms(2) by (rule strip_zeros_digits)
  have e1: "CHR ''e'' \<notin> set ip" using assms(1) by (rule no_e_digits)
  have e2: "CHR ''e'' \<notin> set (strip_zeros fr)" using sd by (rule no_e_digits)
  have e3: "CHR ''e'' \<notin> set sn" using assms(3) by auto
  have e4: "CHR ''e'' \<notin> set (with_fraction ip fr)"
    using set_with_fraction[of ip fr] e1 e2 by auto
  have ne: "\<And>c. c \<in> set (sn @ with_fraction ip fr) \<Longrightarrow> c \<noteq> CHR ''e''"
    using e3 e4 by auto
  have tr: "takeWhile (\<lambda>c. c \<noteq> CHR ''e'') rest = []"
    using assms(4) by auto
  have "takeWhile (\<lambda>c. c \<noteq> CHR ''e'') ((sn @ with_fraction ip fr) @ rest)
          = (sn @ with_fraction ip fr) @ takeWhile (\<lambda>c. c \<noteq> CHR ''e'') rest"
    using ne by (rule takeWhile_append2)
  then have tw: "takeWhile (\<lambda>c. c \<noteq> CHR ''e'') (sn @ with_fraction ip fr @ rest)
          = sn @ with_fraction ip fr"
    using tr by simp
  have f3: "filter is_digit sn = []" using assms(3) not_digit_point(2) by auto
  have "filter is_digit (sn @ with_fraction ip fr) = ip @ strip_zeros fr"
    using f3 filter_with_fraction[OF assms(1) sd] by simp
  then show ?thesis
    unfolding sig_digits_def tw by simp
qed

lemma sig_bound:
  assumes "ip @ fr = zs @ ds" "\<forall>c \<in> set zs. c = CHR ''0''"
  shows "length (dropWhile (\<lambda>c. c = CHR ''0'') (ip @ strip_zeros fr)) \<le> length ds"
proof -
  obtain t where t: "fr = strip_zeros fr @ t" using strip_zeros_prefix by blast
  have "zs @ ds = (ip @ strip_zeros fr) @ t" using assms(1) t by (metis append.assoc)
  then have "length (dropWhile (\<lambda>c. c = CHR ''0'') (ip @ strip_zeros fr))
               \<le> length (dropWhile (\<lambda>c. c = CHR ''0'') (zs @ ds))"
    using dropWhile_prefix_length[of "\<lambda>c. c = CHR ''0''" "ip @ strip_zeros fr" t] by simp
  also have "dropWhile (\<lambda>c. c = CHR ''0'') (zs @ ds) = dropWhile (\<lambda>c. c = CHR ''0'') ds"
    using assms(2) by (intro dropWhile_append2) simp
  also have "length (dropWhile (\<lambda>c. c = CHR ''0'') ds) \<le> length ds"
    by (rule length_dropWhile_le)
  finally show ?thesis .
qed

lemma sig_digits_format_12g:
  assumes "q \<noteq> 0"
  shows "sig_digits (format_12g (Finite q)) \<le> 12"
proof -
  obtain m X where mx: "decimal_12 \<bar>q\<bar> = (m, X)" by (cases "decimal_12 \<bar>q\<bar>") auto
  have mb: "0 \<le> m \<and> m < 10 ^ 12" using assms mx by (intro decimal_12_bounds[of "\<bar>q\<bar>"]) simp_all
  define ds where "ds = str_nat m"
  have dig: "list_all is_digit ds" unfolding ds_def using mb by (intro str_nat_digits) simp
  have len: "length ds \<le> 12" unfolding ds_def using mb by (intro str_nat_length_le) simp_all
  define sn where "sn = (if q < 0 then ''-'' else [])"
  have sg: "sn = [] \<or> sn = ''-''" by (simp add: sn_def)
  have take_dig: "list_all is_digit (take k ds)" for k
    using dig by (auto simp: list_all_iff dest: in_set_takeD)
  have drop_dig: "list_all is_digit (drop k ds)" for k
    using dig by (auto simp: list_all_iff dest: in_set_dropD)
  have split_bound: "sig_digits (sn @ with_fraction (take k ds) (drop k ds) @ rest) \<le> 12"
    if r: "rest = [] \<or> (\<exists>r. rest = CHR ''e'' # r)" for k rest
  proof -
    have b: "length (dropWhile (\<lambda>c. c = CHR ''0'') (take k ds @ strip_zeros (drop k ds))) \<le> length ds"
      by (rule sig_bound[of _ _ "[]"]) simp_all
    have "sig_digits (sn @ with_fraction (take k ds) (drop k ds) @ rest)
            = length (dropWhile (\<lambda>c. c = CHR ''0'') (take k ds @ strip_zeros (drop k ds)))"
      using take_dig drop_dig sg r by (rule sig_digits_mantissa)
    then show ?thesis using b len by linarith
  qed
  have zero_bound: "sig_digits (sn @ with_fraction ''0'' (replicate n CHR ''0'' @ ds) @ []) \<le> 12" for n
  proof -
    have z: "is_digit CHR ''0''" by (simp add: is_digit_def)
    have b: "length (dropWhile (\<lambda>c. c = CHR ''0'') (''0'' @ strip_zeros (replicate n CHR ''0'' @ ds))) \<le> length ds"
      by (rule sig_bound[of _ _ "''0'' @ replicate n CHR ''0''"]) auto
    have d0: "list_all is_digit ''0''" using z by simp
    have "list_all is_digit (replicate n CHR ''0'')" using z by (induction n) simp_all
    then have d1: "list_all is_digit (replicate n CHR ''0'' @ ds)" using dig by simp
    have "sig_digits (sn @ with_fraction ''0'' (replicate n CHR ''0'' @ ds) @ [])
            = length (dropWhile (\<lambda>c. c = CHR ''0'') (''0'' @ strip_zeros (replicate n CHR ''0'' @ ds)))"
      using d0 d1 sg by (rule sig_digits_mantissa) simp
    then show ?thesis using b len by linarith
  qed
  have fm: "format_12g (Finite q) =
      sn @ (if X < - 4 \<or> 12 \<le> X
             then with_fraction (take 1 ds) (drop 1 ds) @ ''e''
                  @ (if X < 0 then ''-'' else ''+'')
                  @ (if \<bar>X\<bar> < 10 then ''0'' else []) @ str_nat \<bar>X\<bar>
             else if 0 \<le> X
             then with_fraction (take (nat X + 1) ds) (drop (nat X + 1) ds)
             else with_fraction ''0'' (replicate (nat (- X - 1)) CHR ''0'' @ ds))"
    using assms by (simp add: format_12g_def mx ds_def sn_def Let_def)
  show ?thesis
  proof (cases "X < - 4 \<or> 12 \<le> X")
    case True
    have "sig_digits (sn @ with_fraction (take 1 ds) (drop 1 ds)
            @ (CHR ''e'' # (if X < 0 then ''-'' else ''+'') @ (if \<bar>X\<bar> < 10 then ''0'' else []) @ str_nat \<bar>X\<bar>)) \<le> 12"
      by (rule split_bound) blast
    moreover have "format_12g (Finite q) = sn @ with_fraction (take 1 ds) (drop 1 ds)
            @ (CHR ''e'' # (if X < 0 then ''-'' else ''+'') @ (if \<bar>X\<bar> < 10 then ''0'' else []) @ str_nat \<bar>X\<bar>)"
      using True by (simp only: fm if_True) simp
    ultimately show ?thesis by (simp only:)
  next
    case False
    show ?thesis
    proof (cases "0 \<le> X")
      case True
      have "sig_digits (sn @ with_fraction (take (nat X + 1) ds) (drop (nat X + 1) ds) @ []) \<le> 12"
        by (rule split_bound) simp
      moreover have "format_12g (Finite q)
           = sn @ with_fraction (take (nat X + 1) ds) (drop (nat X + 1) ds) @ []"
        using False True by (simp only: fm if_False if_True append_Nil2)
      ultimately show ?thesis by (simp only:)
    next
      case neg: False
      have "sig_digits (sn @ with_fraction ''0'' (replicate (nat (- X - 1)) CHR ''0'' @ ds) @ []) \<le> 12"
        by (rule zero_bound)
      moreover have "format_12g (Finite q)
           = sn @ with_fraction ''0'' (replicate (nat (- X - 1)) CHR ''0'' @ ds) @ []"
        using False neg by (simp only: fm if_False append_Nil2)
      ultimately show ?thesis by (simp only:)
    qed
  qed
qed

lemma str_int_chars: "list_all (\<lambda>c. is_digit c \<or> c = CHR ''-'') (str_int n)"
proof (cases "n < 0")
  case True
  then have "list_all is_digit (str_nat (- n))" by (intro str_nat_digits) simp
  then show ?thesis using True by (simp add: str_int_def list_all_iff)
next
  case False
  then have "list_all is_digit (str_nat n)" by (intro str_nat_digits) simp
  then show ?thesis using False by (simp add: str_int_def list_all_iff)
qed

lemma str_int_plain: "CHR ''.'' \<notin> set (str_int n) \<and> CHR ''e'' \<notin> set (str_int n)"
proof -
  have "\<And>c. c \<in> set (str_int n) \<Longrightarrow> is_digit c \<or> c = CHR ''-''"
    using str_int_chars[of n] by (simp add: list_all_iff)
  moreover have "\<not> (is_digit CHR ''.'' \<or> CHR ''.'' = CHR ''-'')" by (simp add: is_digit_def)
  moreover have "\<not> (is_digit CHR ''e'' \<or> CHR ''e'' = CHR ''-'')" by (simp add: is_digit_def)
  ultimately show ?thesis by blast
qed

lemma round_half_even_of_int: "round_half_even (of_int z) = z"
  by (simp add: round_half_even_def)

lemma round53_of_int_integral:
  assumes "round53 (of_int n) = Finite r"
  shows "of_int \<lfloor>r\<rfloor> = r"
proof (cases "n = 0")
  case True
  then show ?thesis using assms by (simp add: round53_def)
next
  case False
  define e where "e = max (ilog2 \<bar>of_int n\<bar>) (- 1022)"
  have r: "r = of_int (round_half_even (of_int n / pow2 (e - 52))) * pow2 (e - 52)"
    using assms False unfolding round53_def e_def[symmetric] Let_def
    by (simp split: if_splits)
  show ?thesis
  proof (cases "0 \<le> e - 52")
    case True
    then have "pow2 (e - 52) = of_int (2 ^ nat (e - 52))" by (simp add: pow2_def)
    then have "r = of_int (round_half_even (of_int n / pow2 (e - 52)) * 2 ^ nat (e - 52))"
      using r by simp
    then show ?thesis by (metis floor_of_int)
  next
    case neg: False
    then have p: "pow2 (e - 52) = 1 / 2 ^ nat (- (e - 52))" by (simp add: pow2_def)
    have "of_int n / pow2 (e - 52) = (of_int (n * 2 ^ nat (- (e - 52))) :: rat)"
      by (simp add: p)
    then have "round_half_even (of_int n / pow2 (e - 52)) = n * 2 ^ nat (- (e - 52))"
      by (simp only: round_half_even_of_int)
    then have "r = of_int n" using r by (simp add: p)
    then show ?thesis by simp
  qed
qed

lemma rtrunc_integral: "of_int \<lfloor>q\<rfloor> = q \<Longrightarrow> rtrunc q = \<lfloor>q\<rfloor>"
  by (metis ceiling_of_int floor_of_int rtrunc_def)

lemma format_num_int: "as_int v = Some n \<Longrightarrow> format_num v = Rtn (str_int n)"
  by (cases v) (auto simp: as_int_def format_num_def int_conv_def py_eq_def)

lemma format_num_float_integral:
  assumes "of_int \<lfloor>q\<rfloor> = q"
  shows "format_num (VFloat (Finite q)) = Rtn (str_int \<lfloor>q\<rfloor>)"
proof -
  have t: "rtrunc q = \<lfloor>q\<rfloor>" using assms by (rule rtrunc_integral)
  have "py_eq (VFloat (Finite q)) (VInt \<lfloor>q\<rfloor>)"
    by (simp add: py_eq_def as_int_def assms)
  then show ?thesis
    by (simp add: format_num_def int_conv_def t)
qed

lemma format_num_float_fraction:
  assumes "of_int \<lfloor>q\<rfloor> \<noteq> q"
  shows "format_num (VFloat (Finite q)) = Rtn (format_12g (Finite q))"
proof -
  have "q \<noteq> of_int (rtrunc q)" using assms by (metis floor_of_int)
  then show ?thesis
    by (simp add: format_num_def int_conv_def py_eq_def as_int_def format_float_def as_float_def
        and_then_def)
qed

lemma fmt_num_int:
  assumes "as_int v = Some n" "float_of_int n = Rtn f"
  shows "fmt_num v = Rtn (str_int n)"
proof -
  obtain r where r: "round53 (of_int n) = Finite r" "f = Finite r"
    using assms(2) by (auto simp: float_of_int_def split: pyfloat.splits)
  have i: "is_integer f" using round53_of_int_integral[OF r(1)] r(2) by (simp add: is_integer_def)
  have a: "as_float v = Rtn f"
    using assms by (cases v) (auto simp: as_int_def as_float_def)
  have c: "int_conv v = Rtn n"
    using assms(1) by (cases v) (auto simp: as_int_def int_conv_def)
  show ?thesis by (simp add: fmt_num_def a i c)
qed

lemma fmt_num_float_integral:
  assumes "of_int \<lfloor>q\<rfloor> = q"
  shows "fmt_num (VFloat (Finite q)) = Rtn (str_int \<lfloor>q\<rfloor>)"
proof -
  have t: "rtrunc q = \<lfloor>q\<rfloor>" using assms by (rule rtrunc_integral)
  have i: "is_integer (Finite q)" by (simp add: is_integer_def assms)
  show ?thesis
    by (simp add: fmt_num_def as_float_def i int_conv_def t)
qed

lemma fmt_num_float_fraction:
  assumes "of_int \<lfloor>q\<rfloor> \<noteq> q"
  shows "fmt_num (VFloat (Finite q)) = Rtn (format_12g (Finite q))"
proof -
  have i: "\<not> is_integer (Finite q)" using assms by (simp add: is_integer_def)
  show ?thesis
    by (simp add: fmt_num_def as_float_def i format_float_def and_then_def)
qed

lemma format_examples:
  "format_num (VInt 42) = Rtn ''42''"
  "format_num (VFloat (Finite (- 3))) = Rtn ''-3''"
  "fmt_num (VFloat (Finite (- 3))) = Rtn ''-3''"
  "format_num (VFloat (Finite (5 / 2))) = Rtn ''2.5''"
  "fmt_num (VFloat (Finite (5 / 2))) = Rtn ''2.5''"
  "format_num (VFloat (Finite (6004799503160661 / 18014398509481984))) = Rtn ''0.333333333333''"
  "format_num (VFloat (Finite (5902958103587057 / 590295810358705651712))) = Rtn ''1e-05''"
  by code_simp+

section \<open>The properties\<close>

text \<open>
  C1 (failing input). The claim: a node outside the recognised shapes is rejected, the dispatch
  has no permissive default. The code: \<^verbatim>\<open>generic_visit\<close> raises only for the 22 listed
  classes and otherwise calls the inherited \<^verbatim>\<open>generic_visit\<close>. A \<^verbatim>\<open>Set\<close> node (the
  tree of \<^verbatim>\<open>{1,2}\<close>) is not listed: its elements are visited, their values dropped, and
  the evaluation returns \<^verbatim>\<open>None\<close> without any error, in both files.
\<close>

theorem C1_unlisted_node_passes:
  "visit L md names (Other ''Set'' elts) = and_then (visit_all L md names elts) (\<lambda>_. Rtn VNone)
   \<and> visit L md names (Expression (Other ''Set'' [Constant (CInt 1), Constant (CInt 2)])) = Rtn VNone"
  by (simp add: forbidden_def visit_Constant_def and_then_def)

text \<open>
  C2 (counterexample). The claim: a call of a registered function with a number of
  positional arguments other than 1 fails with the arity error, in particular
  \<^verbatim>\<open>sqrt(1,2)\<close>. In \<^verbatim>\<open>calc.py\<close> two arguments pass the check
  \<^verbatim>\<open>0 < len(node.args) <= 2\<close>; \<^verbatim>\<open>sqrt(1,2)\<close> fails in \<^verbatim>\<open>math.sqrt\<close> with a
  \<^verbatim>\<open>TypeError\<close>, not with \<^verbatim>\<open>ValueError("bad function arity")\<close>.
\<close>

theorem C2_sqrt_two_arguments_counterexample:
  "(\<forall>L. safe_eval L Calc ''sqrt(1,2)'' Map.empty = Raise TypeError)
   \<and> (\<forall>L. safe_eval L Calc ''sqrt(1,2)'' Map.empty \<noteq> Raise (ValueError ''bad function arity''))"
  by (simp add: calc_sqrt_1_2)

text \<open>
  C2 (amended). For a call of a registered function: \<^verbatim>\<open>calc.py\<close> fails with its arity
  error \<^verbatim>\<open>ValueError("bad function arity")\<close> when there is no positional argument, more
  than two, or a keyword argument; \<^verbatim>\<open>calc_gui.py\<close> fails with
  \<^verbatim>\<open>ValueError("no keyword args")\<close> on a keyword argument and has no check of the count.
  A call that passes these checks and whose arguments evaluate is decided by the library
  function: with a count other than 1 (other than 1 or 2 for \<^verbatim>\<open>ln\<close>) it fails with the
  library's \<^verbatim>\<open>TypeError\<close>. So \<^verbatim>\<open>sqrt(1,2)\<close> fails with \<^verbatim>\<open>TypeError\<close> in both
  files, and \<^verbatim>\<open>ln(8,2)\<close> returns the quotient of the two logarithms (the second argument
  is the base).
\<close>

theorem C2_call_arity:
  assumes "ALLOWED_FUNCS fname = Some fn"
  shows "(length args = 0 \<or> 2 < length args \<or> kws \<noteq> [] \<longrightarrow>
            visit L Calc names (Call (Name fname) args kws) = Raise (ValueError ''bad function arity''))
       \<and> (kws \<noteq> [] \<longrightarrow>
            visit L CalcGui names (Call (Name fname) args kws) = Raise (ValueError ''no keyword args''))
       \<and> (call_check md (length args) kws = None \<and> visit_all L md names args = Rtn vs
            \<and> (if fn = M_log then length args \<noteq> 1 \<and> length args \<noteq> 2 else length args \<noteq> 1) \<longrightarrow>
            visit L md names (Call (Name fname) args kws) = Raise TypeError)
       \<and> safe_eval L md ''sqrt(1,2)'' Map.empty = Raise TypeError
       \<and> (c_log L 2 \<noteq> 0 \<longrightarrow>
            safe_eval L md ''ln(8,2)'' Map.empty =
              Rtn (VFloat (fdiv (Finite (c_log L 8)) (Finite (c_log L 2)))))"
proof (intro conjI impI)
  assume "length args = 0 \<or> 2 < length args \<or> kws \<noteq> []"
  then show "visit L Calc names (Call (Name fname) args kws) = Raise (ValueError ''bad function arity'')"
    using assms by (auto simp: call_check_def)
next
  assume "kws \<noteq> []"
  then show "visit L CalcGui names (Call (Name fname) args kws) = Raise (ValueError ''no keyword args'')"
    using assms by (auto simp: call_check_def)
next
  assume a: "call_check md (length args) kws = None \<and> visit_all L md names args = Rtn vs
      \<and> (if fn = M_log then length args \<noteq> 1 \<and> length args \<noteq> 2 else length args \<noteq> 1)"
  then have len: "length vs = length args"
    using visit_all_length by blast
  have "call_func L fn vs = Raise TypeError"
  proof (cases "fn = M_log")
    case True
    then show ?thesis using a len call_func_log_arity[of vs L] by simp
  next
    case False
    then show ?thesis using a len call_func_arity[of fn vs L] by simp
  qed
  then show "visit L md names (Call (Name fname) args kws) = Raise TypeError"
    using assms a by (simp add: and_then_def)
next
  show "safe_eval L md ''sqrt(1,2)'' Map.empty = Raise TypeError"
    by (cases md) (simp_all only: calc_sqrt_1_2 gui_sqrt_1_2)
next
  assume "c_log L 2 \<noteq> 0"
  then show "safe_eval L md ''ln(8,2)'' Map.empty =
      Rtn (VFloat (fdiv (Finite (c_log L 8)) (Finite (c_log L 2))))"
    by (rule ln_8_2)
qed

text \<open>C2 (witness): \<^verbatim>\<open>sqrt\<close> with no argument, with a keyword, and with two arguments.\<close>

theorem C2_call_arity_witness:
  "ALLOWED_FUNCS ''sqrt'' = Some M_sqrt
   \<and> (\<forall>L. visit L Calc Map.empty (Call (Name ''sqrt'') [] []) = Raise (ValueError ''bad function arity''))
   \<and> (\<forall>L. visit L CalcGui Map.empty (Call (Name ''sqrt'') [Constant (CInt 9)] [''x''])
          = Raise (ValueError ''no keyword args''))
   \<and> (\<forall>L. visit L Calc Map.empty (Call (Name ''sqrt'') [Constant (CInt 1), Constant (CInt 2)] [])
          = Raise TypeError)
   \<and> (\<forall>L. visit L CalcGui Map.empty (Call (Name ''sqrt'') [] []) = Raise TypeError)"
proof -
  have s: "ALLOWED_FUNCS ''sqrt'' = Some M_sqrt" by (rule allowed_sqrt)
  have 1: "visit L Calc Map.empty (Call (Name ''sqrt'') [] []) = Raise (ValueError ''bad function arity'')" for L
    using C2_call_arity[OF s, of "[]" "[]" L Map.empty] by simp
  have 2: "visit L CalcGui Map.empty (Call (Name ''sqrt'') [Constant (CInt 9)] [''x''])
          = Raise (ValueError ''no keyword args'')" for L
    using C2_call_arity[OF s, of "[Constant (CInt 9)]" "[''x'']" L Map.empty] by simp
  have 3: "visit L Calc Map.empty (Call (Name ''sqrt'') [Constant (CInt 1), Constant (CInt 2)] [])
          = Raise TypeError" for L
    using C2_call_arity[OF s, of "[Constant (CInt 1), Constant (CInt 2)]" "[]" L Map.empty Calc "[VInt 1, VInt 2]"]
    by (simp add: call_check_def visit_Constant_def and_then_def)
  have 4: "visit L CalcGui Map.empty (Call (Name ''sqrt'') [] []) = Raise TypeError" for L
    using C2_call_arity[OF s, of "[]" "[]" L Map.empty CalcGui "[]"]
    by (simp add: call_check_def)
  show ?thesis using s 1 2 3 4 by blast
qed

text \<open>
  C3 (failing input). The claim: a power with a negative base and a fractional exponent fails
  with a domain error and never returns a complex number. The code evaluates
  \<^verbatim>\<open>left ** right\<close> with no check: whenever the C library's \<^verbatim>\<open>pow(8, 0.5)\<close> is finite
  (it is about 2.83), \<^verbatim>\<open>(-8)**0.5\<close> returns a \<^verbatim>\<open>complex\<close> value from
  \<^verbatim>\<open>safe_eval\<close>, in both files.
\<close>

theorem C3_negative_base_fractional_power:
  assumes "c_pow L 8 (1 / 2) = Finite r"
  shows "safe_eval L md ''(-8)**0.5'' Map.empty = Rtn VComplex"
proof -
  have pw: "pow_c L 8 (1 / 2) = Finite r"
    using assms by (simp add: pow_c_def floor_half)
  have "float_pow L (Finite (- 8)) (Finite (1 / 2)) = Rtn VComplex"
    using float_pow_negative_fractional[of "- 8" "1 / 2" L] pw by (simp add: floor_half)
  then have "visit L md Map.empty (Expression (BinOp (UnaryOp USub (Constant (CInt 8))) Pow_op
            (Constant (CFloat (Finite (1 / 2)))))) = Rtn VComplex"
    by (simp add: visit_Constant_def unop_def py_neg_def binop_def py_pow_def py_binary_def
        as_int_def as_float_def float_of_int_def round53_neg8 and_then_def)
  then show ?thesis
    by (cases md)
       (simp_all only: safe_eval_Calc safe_eval_CalcGui parse_neg8_pow_half
          percent_to_mul_neg8_pow_half and_then_Rtn)
qed

text \<open>C3 (witness): a C library whose \<^verbatim>\<open>pow\<close> is finite there.\<close>

theorem C3_negative_base_fractional_power_witness:
  "safe_eval \<lparr>c_pow = (\<lambda>a w. Finite 2), c_sqrt = (\<lambda>a. 0), c_sin = (\<lambda>a. 0), c_cos = (\<lambda>a. 0),
         c_tan = (\<lambda>a. 0), c_log = (\<lambda>a. 1), c_log10 = (\<lambda>a. 1)\<rparr> Calc ''(-8)**0.5'' Map.empty = Rtn VComplex"
  using C3_negative_base_fractional_power[of "\<lparr>c_pow = (\<lambda>a w. Finite 2), c_sqrt = (\<lambda>a. 0), c_sin = (\<lambda>a. 0), c_cos = (\<lambda>a. 0),
         c_tan = (\<lambda>a. 0), c_log = (\<lambda>a. 1), c_log10 = (\<lambda>a. 1)\<rparr>" 2 Calc] by simp









text \<open>
  C6. Precedence and associativity match the table. For any two binary operators \<open>s\<close>, \<open>t\<close>
  and any three literals, the text \<open>a s b t c\<close> is evaluated as the tree the table prescribes:
  grouped to the right if \<open>t\<close> binds tighter than \<open>s\<close> or both are \<^verbatim>\<open>**\<close>, to the left
  otherwise; \<open>(a s b) t c\<close> is grouped to the left whatever the operators; a unary minus
  before \<open>a ** b\<close> negates the power, a unary minus in the exponent negates the exponent,
  and a unary minus before \<open>a t b\<close> for any other operator negates \<open>a\<close>; a chain of two
  subtractions of integers is \<open>(x - y) - z\<close>. In both files \<^verbatim>\<open>2+3*4\<close> is 14,
  \<^verbatim>\<open>(2+3)*4\<close> is 20, \<^verbatim>\<open>-2**2\<close> is \<open>-4\<close> (the tree is the negation of the power),
  \<^verbatim>\<open>2**-2\<close> is 0.25 (the exponent is the negated 2), \<^verbatim>\<open>10-3-2\<close> is 5, \<^verbatim>\<open>10-3+2\<close>
  is 9, \<^verbatim>\<open>2**3**2\<close> is 512, \<^verbatim>\<open>100/10/5\<close> is 2.0, \<^verbatim>\<open>12/4*3\<close> is 9.0, \<^verbatim>\<open>8//3//2\<close>
  is 1, \<^verbatim>\<open>2*3**2\<close> is 18, \<^verbatim>\<open>2-3*4\<close> is \<open>-10\<close> and \<^verbatim>\<open>-2*3\<close> is \<open>-6\<close>; in
  \<^verbatim>\<open>calc.py\<close> \<^verbatim>\<open>7%4%2\<close> is 1.
\<close>

theorem C6_precedence_and_associativity:
  "(s \<in> set binary_ops \<and> t \<in> set binary_ops
      \<and> lex (parsed_text md expr) = Rtn [NUMBER a, OP s, NUMBER b, OP t, NUMBER c]
     \<longrightarrow> safe_eval L md expr names
          = visit L md names (Expression (table_tree (Constant a) s (Constant b) t (Constant c))))
   \<and> (s \<in> set binary_ops \<and> t \<in> set binary_ops
      \<and> lex (parsed_text md expr)
          = Rtn [OP ''('', NUMBER a, OP s, NUMBER b, OP '')'', OP t, NUMBER c]
     \<longrightarrow> safe_eval L md expr names
          = visit L md names
              (Expression (BinOp (BinOp (Constant a) (op_node s) (Constant b)) (op_node t)
                 (Constant c))))
   \<and> (lex (parsed_text md expr) = Rtn [OP ''-'', NUMBER a, OP ''**'', NUMBER b]
     \<longrightarrow> safe_eval L md expr names
          = visit L md names (Expression (UnaryOp USub (BinOp (Constant a) Pow_op (Constant b)))))
   \<and> (lex (parsed_text md expr) = Rtn [NUMBER a, OP ''**'', OP ''-'', NUMBER b]
     \<longrightarrow> safe_eval L md expr names
          = visit L md names (Expression (BinOp (Constant a) Pow_op (UnaryOp USub (Constant b)))))
   \<and> (t \<in> set binary_ops \<and> t \<noteq> ''**''
      \<and> lex (parsed_text md expr) = Rtn [OP ''-'', NUMBER a, OP t, NUMBER b]
     \<longrightarrow> safe_eval L md expr names
          = visit L md names
              (Expression (BinOp (UnaryOp USub (Constant a)) (op_node t) (Constant b))))
   \<and> (lex (parsed_text md expr)
        = Rtn [NUMBER (CInt x), OP ''-'', NUMBER (CInt y), OP ''-'', NUMBER (CInt z)]
     \<longrightarrow> safe_eval L md expr names = Rtn (VInt (x - y - z)))
   \<and> safe_eval L md ''2+3*4'' Map.empty = Rtn (VInt 14)
   \<and> safe_eval L md ''(2+3)*4'' Map.empty = Rtn (VInt 20)
   \<and> safe_eval L md ''-2**2'' Map.empty = Rtn (VInt (- 4))
   \<and> safe_eval L md ''2**-2'' Map.empty = Rtn (VFloat (Finite (1 / 4)))
   \<and> parse ''-2**2'' =
       Rtn (Expression (UnaryOp USub (BinOp (Constant (CInt 2)) Pow_op (Constant (CInt 2)))))
   \<and> parse ''2**-2'' =
       Rtn (Expression (BinOp (Constant (CInt 2)) Pow_op (UnaryOp USub (Constant (CInt 2)))))
   \<and> safe_eval L md ''10-3-2'' Map.empty = Rtn (VInt 5)
   \<and> safe_eval L md ''10-3+2'' Map.empty = Rtn (VInt 9)
   \<and> safe_eval L md ''2**3**2'' Map.empty = Rtn (VInt 512)
   \<and> safe_eval L md ''100/10/5'' Map.empty = Rtn (VFloat (Finite 2))
   \<and> safe_eval L md ''12/4*3'' Map.empty = Rtn (VFloat (Finite 9))
   \<and> safe_eval L md ''8//3//2'' Map.empty = Rtn (VInt 1)
   \<and> safe_eval L md ''2*3**2'' Map.empty = Rtn (VInt 18)
   \<and> safe_eval L md ''2-3*4'' Map.empty = Rtn (VInt (- 10))
   \<and> safe_eval L md ''-2*3'' Map.empty = Rtn (VInt (- 6))
   \<and> safe_eval L Calc ''7%4%2'' Map.empty = Rtn (VInt 1)"
proof -
  have 1: "safe_eval L md expr names
          = visit L md names (Expression (table_tree (Constant a) s (Constant b) t (Constant c)))"
    if "s \<in> set binary_ops" "t \<in> set binary_ops"
       "lex (parsed_text md expr) = Rtn [NUMBER a, OP s, NUMBER b, OP t, NUMBER c]"
    for s t a b c
    by (simp only: safe_eval_parsed_text parse_three_operands[OF that] and_then_Rtn)
  have 2: "safe_eval L md expr names
          = visit L md names
              (Expression (BinOp (BinOp (Constant a) (op_node s) (Constant b)) (op_node t)
                 (Constant c)))"
    if "s \<in> set binary_ops" "t \<in> set binary_ops"
       "lex (parsed_text md expr)
          = Rtn [OP ''('', NUMBER a, OP s, NUMBER b, OP '')'', OP t, NUMBER c]"
    by (simp only: safe_eval_parsed_text parse_parenthesised_first[OF that] and_then_Rtn)
  have 3: "safe_eval L md expr names
          = visit L md names (Expression (UnaryOp USub (BinOp (Constant a) Pow_op (Constant b))))"
    if "lex (parsed_text md expr) = Rtn [OP ''-'', NUMBER a, OP ''**'', NUMBER b]"
    by (simp only: safe_eval_parsed_text parse_minus_before_power[OF that] and_then_Rtn)
  have 4: "safe_eval L md expr names
          = visit L md names (Expression (BinOp (Constant a) Pow_op (UnaryOp USub (Constant b))))"
    if "lex (parsed_text md expr) = Rtn [NUMBER a, OP ''**'', OP ''-'', NUMBER b]"
    by (simp only: safe_eval_parsed_text parse_minus_in_exponent[OF that] and_then_Rtn)
  have 5: "safe_eval L md expr names
          = visit L md names
              (Expression (BinOp (UnaryOp USub (Constant a)) (op_node t) (Constant b)))"
    if "t \<in> set binary_ops" "t \<noteq> ''**''"
       "lex (parsed_text md expr) = Rtn [OP ''-'', NUMBER a, OP t, NUMBER b]"
    by (simp only: safe_eval_parsed_text parse_minus_before_product[OF that] and_then_Rtn)
  have 6: "safe_eval L md expr names = Rtn (VInt (x - y - z))"
    if "lex (parsed_text md expr)
        = Rtn [NUMBER (CInt x), OP ''-'', NUMBER (CInt y), OP ''-'', NUMBER (CInt z)]"
    by (simp only: 1[OF binary_ops_mem(2) binary_ops_mem(2) that] int_difference_chain)
  have 7: "safe_eval L md ''2+3*4'' Map.empty = Rtn (VInt 14)
   \<and> safe_eval L md ''(2+3)*4'' Map.empty = Rtn (VInt 20)
   \<and> safe_eval L md ''-2**2'' Map.empty = Rtn (VInt (- 4))
   \<and> safe_eval L md ''2**-2'' Map.empty = Rtn (VFloat (Finite (1 / 4)))
   \<and> parse ''-2**2'' =
       Rtn (Expression (UnaryOp USub (BinOp (Constant (CInt 2)) Pow_op (Constant (CInt 2)))))
   \<and> parse ''2**-2'' =
       Rtn (Expression (BinOp (Constant (CInt 2)) Pow_op (UnaryOp USub (Constant (CInt 2)))))"
    by (cases md)
       (simp_all only: calc_2_plus_3_times_4 gui_2_plus_3_times_4 calc_paren_sum_times_4
          gui_paren_sum_times_4 calc_minus_2_pow_2 gui_minus_2_pow_2 calc_2_pow_minus_2
          gui_2_pow_minus_2 parse_minus_2_pow_2 parse_2_pow_minus_2 simp_thms)
  have 8: "safe_eval L md ''10-3-2'' Map.empty = Rtn (VInt 5)
   \<and> safe_eval L md ''10-3+2'' Map.empty = Rtn (VInt 9)
   \<and> safe_eval L md ''2**3**2'' Map.empty = Rtn (VInt 512)
   \<and> safe_eval L md ''100/10/5'' Map.empty = Rtn (VFloat (Finite 2))
   \<and> safe_eval L md ''12/4*3'' Map.empty = Rtn (VFloat (Finite 9))
   \<and> safe_eval L md ''8//3//2'' Map.empty = Rtn (VInt 1)
   \<and> safe_eval L md ''2*3**2'' Map.empty = Rtn (VInt 18)
   \<and> safe_eval L md ''2-3*4'' Map.empty = Rtn (VInt (- 10))
   \<and> safe_eval L md ''-2*3'' Map.empty = Rtn (VInt (- 6))
   \<and> safe_eval L Calc ''7%4%2'' Map.empty = Rtn (VInt 1)"
    by (cases md)
       (simp_all only: calc_10_minus_3_minus_2 gui_10_minus_3_minus_2 calc_10_minus_3_plus_2
          gui_10_minus_3_plus_2 calc_power_tower gui_power_tower calc_100_div_10_div_5
          gui_100_div_10_div_5 calc_12_div_4_times_3 gui_12_div_4_times_3
          calc_8_floordiv_3_floordiv_2 gui_8_floordiv_3_floordiv_2 calc_2_times_3_pow_2
          gui_2_times_3_pow_2 calc_2_minus_3_times_4 gui_2_minus_3_times_4 calc_minus_2_times_3
          gui_minus_2_times_3 calc_7_mod_4_mod_2 simp_thms)
  show ?thesis
    using 1 2 3 4 5 6 7 8 by blast
qed

theorem C6_precedence_and_associativity_witness:
  "''-'' \<in> set binary_ops \<and> ''**'' \<in> set binary_ops \<and> ''+'' \<in> set binary_ops
   \<and> ''*'' \<in> set binary_ops \<and> ''*'' \<noteq> ''**''
   \<and> lex (parsed_text CalcGui ''10-3-2'')
       = Rtn [NUMBER (CInt 10), OP ''-'', NUMBER (CInt 3), OP ''-'', NUMBER (CInt 2)]
   \<and> (\<forall>L. safe_eval L CalcGui ''10-3-2'' Map.empty = Rtn (VInt 5))
   \<and> lex (parsed_text Calc ''2**3**2'')
       = Rtn [NUMBER (CInt 2), OP ''**'', NUMBER (CInt 3), OP ''**'', NUMBER (CInt 2)]
   \<and> (\<forall>L. safe_eval L Calc ''2**3**2'' Map.empty = Rtn (VInt 512))
   \<and> lex (parsed_text Calc ''(2+3)*4'')
       = Rtn [OP ''('', NUMBER (CInt 2), OP ''+'', NUMBER (CInt 3), OP '')'', OP ''*'',
              NUMBER (CInt 4)]
   \<and> (\<forall>L. safe_eval L Calc ''(2+3)*4'' Map.empty = Rtn (VInt 20))
   \<and> lex (parsed_text CalcGui ''-2**2'')
       = Rtn [OP ''-'', NUMBER (CInt 2), OP ''**'', NUMBER (CInt 2)]
   \<and> (\<forall>L. safe_eval L CalcGui ''-2**2'' Map.empty = Rtn (VInt (- 4)))
   \<and> lex (parsed_text Calc ''2**-2'') = Rtn [NUMBER (CInt 2), OP ''**'', OP ''-'', NUMBER (CInt 2)]
   \<and> (\<forall>L. safe_eval L Calc ''2**-2'' Map.empty = Rtn (VFloat (Finite (1 / 4))))
   \<and> lex (parsed_text Calc ''-2*3'') = Rtn [OP ''-'', NUMBER (CInt 2), OP ''*'', NUMBER (CInt 3)]
   \<and> (\<forall>L. safe_eval L Calc ''-2*3'' Map.empty = Rtn (VInt (- 6)))"
proof -
  have 1: "safe_eval L CalcGui ''10-3-2'' Map.empty = Rtn (VInt 5)" for L
    using C6_precedence_and_associativity[where md = "CalcGui" and expr = "''10-3-2''"
        and L = "L" and names = "Map.empty" and x = "10" and y = "3" and z = "2"]
    by (simp only: lex_gui_10_minus_3_minus_2)
  have 2: "safe_eval L Calc ''2**3**2'' Map.empty = Rtn (VInt 512)" for L
    using C6_precedence_and_associativity[where s = "''**''" and t = "''**''" and md = "Calc"
        and expr = "''2**3**2''" and a = "CInt 2" and b = "CInt 3" and c = "CInt 2" and L = "L"
        and names = "Map.empty"]
    by (simp only: lex_calc_power_tower binary_ops_mem visit_power_tower)
  have 3: "safe_eval L Calc ''(2+3)*4'' Map.empty = Rtn (VInt 20)" for L
    using C6_precedence_and_associativity[where s = "''+''" and t = "''*''" and md = "Calc"
        and expr = "''(2+3)*4''" and a = "CInt 2" and b = "CInt 3" and c = "CInt 4" and L = "L"
        and names = "Map.empty"]
    by (simp only: lex_calc_paren_sum_times_4 binary_ops_mem visit_paren_sum_times_4)
  have 4: "safe_eval L CalcGui ''-2**2'' Map.empty = Rtn (VInt (- 4))" for L
    using C6_precedence_and_associativity[where md = "CalcGui" and expr = "''-2**2''"
        and a = "CInt 2" and b = "CInt 2" and L = "L" and names = "Map.empty"]
    by (simp only: lex_gui_minus_2_pow_2 visit_minus_2_pow_2)
  have 5: "safe_eval L Calc ''2**-2'' Map.empty = Rtn (VFloat (Finite (1 / 4)))" for L
    using C6_precedence_and_associativity[where md = "Calc" and expr = "''2**-2''"
        and a = "CInt 2" and b = "CInt 2" and L = "L" and names = "Map.empty"]
    by (simp only: lex_calc_2_pow_minus_2 visit_2_pow_minus_2)
  have 6: "safe_eval L Calc ''-2*3'' Map.empty = Rtn (VInt (- 6))" for L
    using C6_precedence_and_associativity[where t = "''*''" and md = "Calc" and expr = "''-2*3''"
        and a = "CInt 2" and b = "CInt 3" and L = "L" and names = "Map.empty"]
    by (simp only: lex_calc_minus_2_times_3 binary_ops_mem neq_times_pow visit_minus_2_times_3
          simp_thms)
  show ?thesis
    by (simp only: 1 2 3 4 5 6 lex_gui_10_minus_3_minus_2 lex_calc_power_tower
          lex_calc_paren_sum_times_4 lex_gui_minus_2_pow_2 lex_calc_2_pow_minus_2
          lex_calc_minus_2_times_3 binary_ops_mem neq_times_pow simp_thms)
qed

lemma true_division_outcomes:
  assumes "is_real a" "is_real b"
  shows "(\<exists>x. binop L Div a b = Rtn (VFloat x)) \<or> binop L Div a b = Raise ZeroDivisionError
          \<or> binop L Div a b = Raise OverflowError"
  using assms
  by (cases a; cases b)
     (auto simp: is_real_def binop_def py_truediv_def py_binary_def as_int_def as_float_def
        int_true_div_def float_div_def float_of_int_def and_then_def
        split: pyfloat.splits)

text \<open>
  C7. True division never returns an integer: on two numbers (\<^verbatim>\<open>int\<close>, \<^verbatim>\<open>bool\<close>,
  \<^verbatim>\<open>float\<close>) \<^verbatim>\<open>/\<close> returns a \<^verbatim>\<open>float\<close>, or raises \<^verbatim>\<open>ZeroDivisionError\<close> or
  \<^verbatim>\<open>OverflowError\<close>; on two integers with a divisor that is not zero it returns the
  binary64 number nearest to the quotient (\<^verbatim>\<open>OverflowError\<close> beyond the range);
  \<^verbatim>\<open>4/2\<close> is the \<^verbatim>\<open>float\<close> 2.0.
\<close>

theorem C7_true_division_is_float:
  "(is_real a \<and> is_real b \<longrightarrow>
      (\<exists>x. binop L Div a b = Rtn (VFloat x)) \<or> binop L Div a b = Raise ZeroDivisionError
        \<or> binop L Div a b = Raise OverflowError)
   \<and> binop L Div (VInt i) (VInt j) =
       (if j = 0 then Raise ZeroDivisionError
        else case round53 (of_int i / of_int j) of
               Finite q \<Rightarrow> Rtn (VFloat (Finite q)) | _ \<Rightarrow> Raise OverflowError)
   \<and> safe_eval L md ''4/2'' Map.empty = Rtn (VFloat (Finite 2))"
proof -
  have "safe_eval L md ''4/2'' Map.empty = Rtn (VFloat (Finite 2))"
    by (cases md) (simp_all only: calc_4_div_2 gui_4_div_2)
  moreover have "binop L Div (VInt i) (VInt j) =
       (if j = 0 then Raise ZeroDivisionError
        else case round53 (of_int i / of_int j) of
               Finite q \<Rightarrow> Rtn (VFloat (Finite q)) | _ \<Rightarrow> Raise OverflowError)"
    by (simp add: binop_def py_truediv_def py_binary_def as_int_def int_true_div_def)
  ultimately show ?thesis
    using true_division_outcomes[of a b L] by blast
qed

text \<open>C7 (witness): 4 by 2.\<close>

theorem C7_true_division_is_float_witness:
  "is_real (VInt 4) \<and> is_real (VInt 2)
   \<and> (\<forall>L. binop L Div (VInt 4) (VInt 2) = Rtn (VFloat (Finite 2)))"
proof -
  have r: "round53 2 = Finite 2" by code_simp
  have "binop L Div (VInt 4) (VInt 2) = Rtn (VFloat (Finite 2))" for L
    using C7_true_division_is_float[of "VInt 4" "VInt 2" L 4 2 Calc] by (simp add: r)
  then show ?thesis by (simp add: is_real_def)
qed

text \<open>
  C8. A name is looked up in the caller's bindings first and in the built-in constants
  second, and fails with \<^verbatim>\<open>ValueError("name '...' not allowed")\<close> if it is in neither; a
  binding of \<^verbatim>\<open>pi\<close> shadows the constant; \<^verbatim>\<open>ans+1\<close> is 5 with \<^verbatim>\<open>ans\<close> bound to
  4.0 and fails with that error with no binding.
\<close>

theorem C8_name_resolution:
  "visit L md names (Name x) =
     (case names x of
        Some v \<Rightarrow> Rtn v
      | None \<Rightarrow> (case ALLOWED_NAMES x of
                   Some c \<Rightarrow> Rtn c
                 | None \<Rightarrow> Raise (ValueError (''name '' @ quoted x @ '' not allowed''))))
   \<and> safe_eval L Calc ''pi'' [''pi'' \<mapsto> VInt 3] = Rtn (VInt 3)
   \<and> safe_eval L md ''ans+1'' [''ans'' \<mapsto> VFloat (Finite 4)] = Rtn (VFloat (Finite 5))
   \<and> py_eq (VFloat (Finite 5)) (VInt 5)
   \<and> safe_eval L md ''ans+1'' Map.empty
       = Raise (ValueError (''name '' @ quoted ''ans'' @ '' not allowed''))"
proof -
  have 1: "visit L md names (Name x) =
     (case names x of
        Some v \<Rightarrow> Rtn v
      | None \<Rightarrow> (case ALLOWED_NAMES x of
                   Some c \<Rightarrow> Rtn c
                 | None \<Rightarrow> Raise (ValueError (''name '' @ quoted x @ '' not allowed''))))"
    by (simp add: visit_Name_def map_add_def split: option.splits)
  have 2: "safe_eval L md ''ans+1'' [''ans'' \<mapsto> VFloat (Finite 4)] = Rtn (VFloat (Finite 5))"
    by (cases md) (simp_all only: calc_ans_bound gui_ans_bound)
  have 3: "safe_eval L md ''ans+1'' Map.empty
       = Raise (ValueError (''name '' @ quoted ''ans'' @ '' not allowed''))"
    by (cases md) (simp_all only: calc_ans_unbound gui_ans_unbound)
  show ?thesis
    using 1 2 3 calc_pi_shadowed[of L] py_eq_5 by blast
qed

text \<open>
  C9. A value that is mathematically an integer is rendered as a plain integer string:
  \<^verbatim>\<open>format_num\<close> renders every \<^verbatim>\<open>int\<close> and \<^verbatim>\<open>bool\<close> and every \<^verbatim>\<open>float\<close> with
  zero fractional part as \<^verbatim>\<open>str\<close> of the integer, and so does \<^verbatim>\<open>fmt_num\<close> (for an
  \<^verbatim>\<open>int\<close>: whenever it is in the range of \<^verbatim>\<open>float\<close>; \<^verbatim>\<open>calc_gui.py\<close> only passes
  it a \<^verbatim>\<open>float\<close>). That string consists of digits and at most a minus sign: no decimal
  point, no exponent. Every other finite \<^verbatim>\<open>float\<close> is rendered by \<^verbatim>\<open>.12g\<close>, with at
  most 12 significant digits. (The interpreter's limit on the digits of \<^verbatim>\<open>str(int)\<close> is
  not modelled.)
\<close>

theorem C9_format:
  "(as_int v = Some n \<longrightarrow> format_num v = Rtn (str_int n))
   \<and> (as_int v = Some n \<and> float_of_int n = Rtn f \<longrightarrow> fmt_num v = Rtn (str_int n))
   \<and> (of_int \<lfloor>q\<rfloor> = q \<longrightarrow>
        format_num (VFloat (Finite q)) = Rtn (str_int \<lfloor>q\<rfloor>)
        \<and> fmt_num (VFloat (Finite q)) = Rtn (str_int \<lfloor>q\<rfloor>))
   \<and> list_all (\<lambda>c. is_digit c \<or> c = CHR ''-'') (str_int n)
   \<and> CHR ''.'' \<notin> set (str_int n) \<and> CHR ''e'' \<notin> set (str_int n)
   \<and> (of_int \<lfloor>q\<rfloor> \<noteq> q \<longrightarrow>
        format_num (VFloat (Finite q)) = Rtn (format_12g (Finite q))
        \<and> fmt_num (VFloat (Finite q)) = Rtn (format_12g (Finite q))
        \<and> sig_digits (format_12g (Finite q)) \<le> 12)"
proof -
  have "sig_digits (format_12g (Finite q)) \<le> 12" if "of_int \<lfloor>q\<rfloor> \<noteq> q"
  proof -
    have "q \<noteq> 0" using that by auto
    then show ?thesis by (rule sig_digits_format_12g)
  qed
  then show ?thesis
    using format_num_int[of v n] fmt_num_int[of v n f] format_num_float_integral[of q]
      fmt_num_float_integral[of q] str_int_chars[of n] str_int_plain[of n]
      format_num_float_fraction[of q] fmt_num_float_fraction[of q]
    by blast
qed

text \<open>C9 (witness): 42, \<open>-3.0\<close> and 2.5.\<close>

theorem C9_format_witness:
  "as_int (VInt 42) = Some 42 \<and> float_of_int 42 = Rtn (Finite 42)
   \<and> format_num (VInt 42) = Rtn ''42'' \<and> fmt_num (VInt 42) = Rtn ''42''
   \<and> format_num (VFloat (Finite (- 3))) = Rtn ''-3''
   \<and> fmt_num (VFloat (Finite (- 3))) = Rtn ''-3''
   \<and> format_num (VFloat (Finite (5 / 2))) = Rtn ''2.5''
   \<and> fmt_num (VFloat (Finite (5 / 2))) = Rtn ''2.5''
   \<and> sig_digits ''2.5'' \<le> 12"
proof -
  have a: "as_int (VInt 42) = Some 42" by (simp add: as_int_def)
  have b: "float_of_int 42 = Rtn (Finite 42)" by code_simp
  have s1: "str_int 42 = ''42''" by code_simp
  have s2: "str_int (- 3) = ''-3''" by code_simp
  have s3: "format_12g (Finite (5 / 2)) = ''2.5''" by code_simp
  have f1: "\<lfloor>- 3 :: rat\<rfloor> = - 3" by simp
  have f2: "of_int \<lfloor>5 / 2 :: rat\<rfloor> \<noteq> (5 / 2 :: rat)" by code_simp
  have t1: "format_num (VInt 42) = Rtn ''42'' \<and> fmt_num (VInt 42) = Rtn ''42''"
    using C9_format[of "VInt 42" 42 "Finite 42" 0] a b by (simp add: s1)
  have t2: "format_num (VFloat (Finite (- 3))) = Rtn ''-3'' \<and> fmt_num (VFloat (Finite (- 3))) = Rtn ''-3''"
    using C9_format[of "VInt 42" 42 "Finite 42" "- 3"] by (simp add: s2)
  have t3: "format_num (VFloat (Finite (5 / 2))) = Rtn ''2.5'' \<and> fmt_num (VFloat (Finite (5 / 2))) = Rtn ''2.5''
      \<and> sig_digits ''2.5'' \<le> 12"
    using C9_format[of "VInt 42" 42 "Finite 42" "5 / 2"] f2 by (simp add: s3)
  show ?thesis using a b t1 t2 t3 by blast
qed

text \<open>
  C10. The literals \<^verbatim>\<open>True\<close> and \<^verbatim>\<open>False\<close> are accepted as numbers:
  \<^verbatim>\<open>visit_Constant\<close> returns a \<^verbatim>\<open>bool\<close> constant as it is; \<^verbatim>\<open>True\<close> evaluates to
  \<^verbatim>\<open>True\<close>, which equals 1 and is displayed as \<^verbatim>\<open>1\<close>, and \<^verbatim>\<open>True+True\<close>
  evaluates to 2.
\<close>

theorem C10_boolean_literals_are_numbers:
  "visit_Constant (CBool b) = Rtn (VBool b)
   \<and> safe_eval L md ''True'' Map.empty = Rtn (VBool True)
   \<and> py_eq (VBool True) (VInt 1)
   \<and> format_num (VBool True) = Rtn ''1''
   \<and> safe_eval L md ''True+True'' Map.empty = Rtn (VInt 2)"
proof -
  have 1: "safe_eval L md ''True'' Map.empty = Rtn (VBool True)"
    by (cases md) (simp_all only: calc_True gui_True)
  have 2: "safe_eval L md ''True+True'' Map.empty = Rtn (VInt 2)"
    by (cases md) (simp_all only: calc_True_plus_True gui_True_plus_True)
  have 3: "visit_Constant (CBool b) = Rtn (VBool b)"
    by (simp add: visit_Constant_def)
  show ?thesis
    using 1 2 3 py_eq_True_1 format_True by blast
qed

end
